theory Spec2Isabelle
  imports Complex_Main "HOL-Library.Word"
begin

unbundle bit_operations_syntax

chapter \<open>The ecc compiler: semantic analyzer and x86-64 backend\<close>

text \<open>
  A shallow embedding of the parts of \<^verbatim>\<open>src/x86asm.c\<close> and \<^verbatim>\<open>src/analyze.c\<close> that the
  specification makes statements about. Every definition carries the name of the C
  function it embeds. Text written to a \<^verbatim>\<open>FILE*\<close> is a \<^typ>\<open>string\<close>; a pointer that may be
  \<^verbatim>\<open>NULL\<close> is an \<^typ>\<open>'a option\<close>; a linked list threaded through \<^verbatim>\<open>next\<close> is a list;
  dereferencing \<^verbatim>\<open>NULL\<close> makes the embedded function return \<^term>\<open>None\<close>.
\<close>

section \<open>Formatting of numbers by the C library\<close>

definition digit_char :: "nat \<Rightarrow> char" where
  "digit_char d = ''0123456789'' ! d"

function string_of_nat :: "nat \<Rightarrow> string" where
  "string_of_nat n =
     (if n < 10 then [digit_char n] else string_of_nat (n div 10) @ [digit_char (n mod 10)])"
  by pat_completeness auto
termination
  by (relation "measure id") auto

declare string_of_nat.simps [simp del]

text \<open>The conversion \<^verbatim>\<open>%lld\<close>.\<close>

definition string_of_int :: "int \<Rightarrow> string" where
  "string_of_int i =
     (if i < 0 then CHR ''-'' # string_of_nat (nat (- i)) else string_of_nat (nat i))"

text \<open>
  \<^verbatim>\<open>llabs\<close> on a \<^verbatim>\<open>long long\<close>: the most negative value has no positive counterpart and
  comes back unchanged.
\<close>

definition llabs :: "int \<Rightarrow> int" where
  "llabs i = (if i = - (2 ^ 63) then - (2 ^ 63) else \<bar>i\<bar>)"

text \<open>C's \<^verbatim>\<open>%\<close> on \<^verbatim>\<open>long long\<close> truncates toward zero.\<close>

definition c_rem :: "int \<Rightarrow> int \<Rightarrow> int" where
  "c_rem a b = sgn a * (\<bar>a\<bar> mod \<bar>b\<bar>)"

text \<open>
  \<^verbatim>\<open>abs\<close> takes an \<^verbatim>\<open>int\<close>: a \<^verbatim>\<open>long long\<close> argument is first cut to 32 bits, and the most
  negative \<^verbatim>\<open>int\<close> comes back unchanged. A \<^verbatim>\<open>long long\<close> result wraps at 64 bits.
\<close>

definition abs_int :: "int \<Rightarrow> int" where
  "abs_int i =
     (let y = signed_take_bit 31 i in if y = - (2 ^ 31) then - (2 ^ 31) else \<bar>y\<bar>)"

definition llong :: "int \<Rightarrow> int" where
  "llong i = signed_take_bit 63 i"

section \<open>Backend: the assembly instruction model\<close>

datatype (plugins only: code) x86_insn_type =
    X86I_UNKNOWN | X86I_NO_ELEMENTS | X86I_LABEL | X86I_LEA | X86I_CALL | X86I_PUSH | X86I_POP
  | X86I_LEAVE | X86I_RET | X86I_JMP | X86I_JE | X86I_JNE | X86I_JNB | X86I_JS | X86I_CMP
  | X86I_SETE | X86I_SETNE | X86I_SETLE | X86I_SETL | X86I_SETGE | X86I_SETG
  | X86I_AND | X86I_OR | X86I_XOR | X86I_NOT | X86I_NOP | X86I_NEG | X86I_MOV
  | X86I_ADD | X86I_SUB | X86I_MUL | X86I_IMUL | X86I_DIV | X86I_IDIV
  | X86I_SHL | X86I_SHR | X86I_SAR | X86I_ROR | X86I_TEST | X86I_SKIP
  | X86I_SETA | X86I_SETNB | X86I_SETP | X86I_SETNP
  | X86I_CVTTSD2SI | X86I_CVTTSS2SI | X86I_CVTSI2SS | X86I_CVTSI2SD
  | X86I_MOVSS | X86I_MOVSD | X86I_ADDSS | X86I_ADDSD | X86I_SUBSS | X86I_SUBSD
  | X86I_MULSS | X86I_MULSD | X86I_DIVSS | X86I_DIVSD | X86I_CVTSD2SS | X86I_CVTSS2SD
  | X86I_COMISS | X86I_COMISD | X86I_XORPD | X86I_XORPS | X86I_UCOMISS | X86I_UCOMISD
  | X86I_PTEST | X86I_MOVZX | X86I_MOVSX | X86I_STC | X86I_REP_STOSB | X86I_SYSCALL

text \<open>
  The enumeration \<^verbatim>\<open>x86_insn_size_t\<close> is declared in \<^verbatim>\<open>ecc.h\<close>. The backend uses its four
  named sizes, and the zero that \<^verbatim>\<open>calloc\<close> leaves in a fresh instruction or operand, which
  \<^verbatim>\<open>x86_write_operand\<close> reads as "no size of its own" (\<^verbatim>\<open>op->size ? op->size : size\<close>);
  \<open>X86SZ_UNSET\<close> is that zero.
\<close>

datatype x86_insn_size = X86SZ_UNSET | X86SZ_BYTE | X86SZ_WORD | X86SZ_DWORD | X86SZ_QWORD

text \<open>
  Register ids: the sixteen integer registers, the eight SSE registers the backend uses,
  the marker \<^verbatim>\<open>INVALID_VREGID\<close>, and any other id (a virtual register).
\<close>

datatype regid_t =
    X86R_RAX | X86R_RBX | X86R_RCX | X86R_RDX | X86R_RSI | X86R_RDI | X86R_RBP | X86R_RSP
  | X86R_R8 | X86R_R9 | X86R_R10 | X86R_R11 | X86R_R12 | X86R_R13 | X86R_R14 | X86R_R15
  | X86R_XMM0 | X86R_XMM1 | X86R_XMM2 | X86R_XMM3 | X86R_XMM4 | X86R_XMM5 | X86R_XMM6
  | X86R_XMM7 | INVALID_VREGID | VREG nat

text \<open>The tagged union inside \<^verbatim>\<open>x86_operand_t\<close>: the tag and the member it selects.\<close>

datatype x86_operand_content =
    X86OP_REGISTER regid_t
  | X86OP_PTR_REGISTER regid_t
  | X86OP_DEREF_REGISTER (reg_addr: regid_t) (deref_offset: int)
  | X86OP_ARRAY (reg_base: regid_t) (reg_offset: regid_t) (scale: int) (array_offset: int)
  | X86OP_LABEL string
  | X86OP_LABEL_REF string int
  | X86OP_TEXT string
  | X86OP_STRING string
  | X86OP_IMMEDIATE "64 word"

record x86_operand =
  op_content :: x86_operand_content
  op_size :: x86_insn_size

record x86_insn =
  itype :: x86_insn_type
  isize :: x86_insn_size
  op1 :: "x86_operand option"
  op2 :: "x86_operand option"
  op3 :: "x86_operand option"

record x86_asm_routine =
  routine_id :: nat
  global :: bool
  label :: string
  insns :: "x86_insn list"
  used_nonvolatiles :: "16 word"
  stackalloc :: int
  uses_varargs :: bool

definition make_basic_x86_operand :: "x86_operand_content \<Rightarrow> x86_operand" where
  "make_basic_x86_operand c = \<lparr>op_content = c, op_size = X86SZ_UNSET\<rparr>"

definition make_operand_label :: "string \<Rightarrow> x86_operand" where
  "make_operand_label l = make_basic_x86_operand (X86OP_LABEL l)"

definition make_operand_label_ref :: "string \<Rightarrow> int \<Rightarrow> x86_operand" where
  "make_operand_label_ref l off = make_basic_x86_operand (X86OP_LABEL_REF l off)"

definition make_operand_register :: "regid_t \<Rightarrow> x86_operand" where
  "make_operand_register r = make_basic_x86_operand (X86OP_REGISTER r)"

definition make_operand_deref_register :: "regid_t \<Rightarrow> int \<Rightarrow> x86_operand" where
  "make_operand_deref_register r off = make_basic_x86_operand (X86OP_DEREF_REGISTER r off)"

definition make_operand_immediate :: "64 word \<Rightarrow> x86_operand" where
  "make_operand_immediate i = make_basic_x86_operand (X86OP_IMMEDIATE i)"

definition make_operand_array :: "regid_t \<Rightarrow> regid_t \<Rightarrow> int \<Rightarrow> int \<Rightarrow> x86_operand" where
  "make_operand_array b ro sc off = make_basic_x86_operand (X86OP_ARRAY b ro sc off)"

definition make_basic_x86_insn :: "x86_insn_type \<Rightarrow> x86_insn" where
  "make_basic_x86_insn t =
     \<lparr>itype = t, isize = X86SZ_UNSET, op1 = None, op2 = None, op3 = None\<rparr>"

section \<open>Backend: printing one instruction\<close>

definition x86_operand_size_character :: "x86_insn_size \<Rightarrow> char" where
  "x86_operand_size_character sz =
     (case sz of
        X86SZ_BYTE \<Rightarrow> CHR ''b''
      | X86SZ_WORD \<Rightarrow> CHR ''w''
      | X86SZ_DWORD \<Rightarrow> CHR ''l''
      | X86SZ_QWORD \<Rightarrow> CHR ''q''
      | _ \<Rightarrow> CHR ''?'')"

definition x86_insn_uses_suffix :: "x86_insn_type \<Rightarrow> bool" where
  "x86_insn_uses_suffix t =
     (case t of
        X86I_MOVSS \<Rightarrow> False | X86I_MOVSD \<Rightarrow> False
      | X86I_ADDSS \<Rightarrow> False | X86I_ADDSD \<Rightarrow> False
      | X86I_SUBSS \<Rightarrow> False | X86I_SUBSD \<Rightarrow> False
      | X86I_MULSS \<Rightarrow> False | X86I_MULSD \<Rightarrow> False
      | X86I_DIVSS \<Rightarrow> False | X86I_DIVSD \<Rightarrow> False
      | X86I_CVTSD2SS \<Rightarrow> False | X86I_CVTSS2SD \<Rightarrow> False
      | X86I_COMISS \<Rightarrow> False | X86I_COMISD \<Rightarrow> False
      | X86I_XORPD \<Rightarrow> False | X86I_XORPS \<Rightarrow> False
      | X86I_UCOMISS \<Rightarrow> False | X86I_UCOMISD \<Rightarrow> False
      | X86I_PTEST \<Rightarrow> False
      | X86I_MOVZX \<Rightarrow> False | X86I_MOVSX \<Rightarrow> False
      | X86I_STC \<Rightarrow> False | X86I_REP_STOSB \<Rightarrow> False | X86I_SYSCALL \<Rightarrow> False
      | _ \<Rightarrow> True)"

text \<open>
  \<^verbatim>\<open>register_name\<close> indexes the name tables \<^verbatim>\<open>X86_64_*_REGISTERS\<close> of \<^verbatim>\<open>ecc.h\<close>; the
  printing functions take it as the parameter \<open>rn\<close>.
\<close>

type_synonym register_name = "regid_t \<Rightarrow> x86_insn_size \<Rightarrow> string"

definition x86_write_register :: "register_name \<Rightarrow> regid_t \<Rightarrow> x86_insn_size \<Rightarrow> string" where
  "x86_write_register rn reg sz = CHR ''%'' # rn reg sz"

definition x86_write_operand ::
  "register_name \<Rightarrow> x86_operand option \<Rightarrow> x86_insn_size \<Rightarrow> string" where
  "x86_write_operand rn op sz =
     (case op of
        None \<Rightarrow> []
      | Some p \<Rightarrow>
          (case op_content p of
             X86OP_REGISTER r \<Rightarrow>
               x86_write_register rn r (if op_size p \<noteq> X86SZ_UNSET then op_size p else sz)
           | X86OP_PTR_REGISTER r \<Rightarrow>
               ''*'' @ x86_write_register rn r
                 (if op_size p \<noteq> X86SZ_UNSET then op_size p else sz)
           | X86OP_DEREF_REGISTER r off \<Rightarrow>
               (if off \<noteq> 0 then string_of_int off else [])
               @ ''('' @ x86_write_register rn r X86SZ_QWORD @ '')''
           | X86OP_ARRAY b ro sc off \<Rightarrow>
               (if off \<noteq> 0 then string_of_int off else [])
               @ ''(''
               @ (if b \<noteq> INVALID_VREGID then x86_write_register rn b X86SZ_QWORD else [])
               @ '', ''
               @ (if ro \<noteq> INVALID_VREGID then x86_write_register rn ro X86SZ_QWORD else [])
               @ '', '' @ string_of_int sc @ '')''
           | X86OP_LABEL l \<Rightarrow> l
           | X86OP_TEXT t \<Rightarrow> t
           | X86OP_STRING s \<Rightarrow> [CHR 0x22] @ s @ [CHR 0x22]
           | X86OP_LABEL_REF l off \<Rightarrow>
               (if off > 0 then l @ ''+'' @ string_of_int off @ ''(%rip)''
                else if off < 0 then l @ ''-'' @ string_of_int (llabs off) @ ''(%rip)''
                else l @ ''(%rip)'')
           | X86OP_IMMEDIATE i \<Rightarrow> ''$'' @ string_of_nat (unat i)))"

definition INDENT :: string where
  "INDENT = ''    ''"

definition insn_suffix :: "x86_insn \<Rightarrow> string" where
  "insn_suffix insn =
     (if x86_insn_uses_suffix (itype insn) then [x86_operand_size_character (isize insn)]
      else [])"

definition USUAL_START :: "string \<Rightarrow> x86_insn \<Rightarrow> string" where
  "USUAL_START name insn = INDENT @ name @ insn_suffix insn @ '' ''"

definition USUAL_1OP :: "register_name \<Rightarrow> string \<Rightarrow> x86_insn \<Rightarrow> string" where
  "USUAL_1OP rn name insn =
     USUAL_START name insn @ x86_write_operand rn (op1 insn) (isize insn)"

definition USUAL_2OP :: "register_name \<Rightarrow> string \<Rightarrow> x86_insn \<Rightarrow> string" where
  "USUAL_2OP rn name insn =
     USUAL_START name insn @ x86_write_operand rn (op1 insn) (isize insn) @ '', ''
       @ x86_write_operand rn (op2 insn) (isize insn)"

text \<open>The cases that print a fixed mnemonic and the first operand at a fixed size.\<close>

definition fixed_1op ::
  "register_name \<Rightarrow> string \<Rightarrow> x86_insn_size \<Rightarrow> x86_insn \<Rightarrow> string" where
  "fixed_1op rn name sz insn = INDENT @ name @ '' '' @ x86_write_operand rn (op1 insn) sz"

text \<open>The shifts and the rotate: the count is printed at byte size.\<close>

definition shift_2op :: "register_name \<Rightarrow> string \<Rightarrow> x86_insn \<Rightarrow> string" where
  "shift_2op rn name insn =
     USUAL_START name insn @ x86_write_operand rn (op1 insn) X86SZ_BYTE @ '', ''
       @ x86_write_operand rn (op2 insn) (isize insn)"

text \<open>
  The label case reads \<^verbatim>\<open>insn->op1->label\<close> without testing the tag of the operand. The
  members \<^verbatim>\<open>label\<close>, \<^verbatim>\<open>text\<close> and \<^verbatim>\<open>string\<close> of the union are all a \<^verbatim>\<open>char*\<close> at its start,
  so a text or string operand is printed like a label; for the other tags the bytes read
  are not a string, and for a missing operand the pointer is null: the result is
  \<^term>\<open>None\<close>.
\<close>

definition operand_label_field :: "x86_operand \<Rightarrow> string option" where
  "operand_label_field p =
     (case op_content p of
        X86OP_LABEL l \<Rightarrow> Some l
      | X86OP_TEXT t \<Rightarrow> Some t
      | X86OP_STRING s \<Rightarrow> Some s
      | _ \<Rightarrow> None)"

text \<open>
  \<^verbatim>\<open>x86_write_insn\<close>. The instruction pointer is never \<^verbatim>\<open>NULL\<close> here (the callers walk a
  list). The newline is the final \<^verbatim>\<open>fprintf\<close>; \<^verbatim>\<open>X86I_SKIP\<close> returns before it, and a type
  without a case of its own prints the newline only.
\<close>

definition x86_write_insn_body :: "register_name \<Rightarrow> x86_insn \<Rightarrow> string option" where
  "x86_write_insn_body rn insn =
     (case itype insn of
        X86I_LABEL \<Rightarrow>
          (case op1 insn of
             None \<Rightarrow> None
           | Some p \<Rightarrow> map_option (\<lambda>l. l @ '':'') (operand_label_field p))
      | X86I_LEAVE \<Rightarrow> Some (INDENT @ ''leave'')
      | X86I_RET \<Rightarrow> Some (INDENT @ ''ret'')
      | X86I_STC \<Rightarrow> Some (INDENT @ ''stc'')
      | X86I_NOP \<Rightarrow> Some (INDENT @ ''nop'')
      | X86I_SYSCALL \<Rightarrow> Some (INDENT @ ''syscall'')
      | X86I_CALL \<Rightarrow> Some (fixed_1op rn ''call'' X86SZ_QWORD insn)
      | X86I_JMP \<Rightarrow> Some (fixed_1op rn ''jmp'' X86SZ_QWORD insn)
      | X86I_JE \<Rightarrow> Some (fixed_1op rn ''je'' X86SZ_QWORD insn)
      | X86I_JNE \<Rightarrow> Some (fixed_1op rn ''jne'' X86SZ_QWORD insn)
      | X86I_JNB \<Rightarrow> Some (fixed_1op rn ''jnb'' X86SZ_QWORD insn)
      | X86I_JS \<Rightarrow> Some (fixed_1op rn ''js'' X86SZ_QWORD insn)
      | X86I_SETE \<Rightarrow> Some (fixed_1op rn ''sete'' X86SZ_BYTE insn)
      | X86I_SETNE \<Rightarrow> Some (fixed_1op rn ''setne'' X86SZ_BYTE insn)
      | X86I_SETLE \<Rightarrow> Some (fixed_1op rn ''setle'' X86SZ_BYTE insn)
      | X86I_SETL \<Rightarrow> Some (fixed_1op rn ''setl'' X86SZ_BYTE insn)
      | X86I_SETGE \<Rightarrow> Some (fixed_1op rn ''setge'' X86SZ_BYTE insn)
      | X86I_SETG \<Rightarrow> Some (fixed_1op rn ''setg'' X86SZ_BYTE insn)
      | X86I_SETA \<Rightarrow> Some (fixed_1op rn ''seta'' X86SZ_BYTE insn)
      | X86I_SETNB \<Rightarrow> Some (fixed_1op rn ''setnb'' X86SZ_BYTE insn)
      | X86I_SETP \<Rightarrow> Some (fixed_1op rn ''setp'' X86SZ_BYTE insn)
      | X86I_SETNP \<Rightarrow> Some (fixed_1op rn ''setnp'' X86SZ_BYTE insn)
      | X86I_PUSH \<Rightarrow> Some (USUAL_1OP rn ''push'' insn)
      | X86I_NEG \<Rightarrow> Some (USUAL_1OP rn ''neg'' insn)
      | X86I_MOV \<Rightarrow> Some (USUAL_2OP rn ''mov'' insn)
      | X86I_MOVSS \<Rightarrow> Some (USUAL_2OP rn ''movss'' insn)
      | X86I_MOVSD \<Rightarrow> Some (USUAL_2OP rn ''movsd'' insn)
      | X86I_MOVSX \<Rightarrow> Some (USUAL_2OP rn ''movsx'' insn)
      | X86I_MOVZX \<Rightarrow> Some (USUAL_2OP rn ''movzx'' insn)
      | X86I_LEA \<Rightarrow> Some (USUAL_2OP rn ''lea'' insn)
      | X86I_AND \<Rightarrow> Some (USUAL_2OP rn ''and'' insn)
      | X86I_OR \<Rightarrow> Some (USUAL_2OP rn ''or'' insn)
      | X86I_CMP \<Rightarrow> Some (USUAL_2OP rn ''cmp'' insn)
      | X86I_NOT \<Rightarrow> Some (USUAL_2OP rn ''not'' insn)
      | X86I_ADD \<Rightarrow> Some (USUAL_2OP rn ''add'' insn)
      | X86I_ADDSS \<Rightarrow> Some (USUAL_2OP rn ''addss'' insn)
      | X86I_ADDSD \<Rightarrow> Some (USUAL_2OP rn ''addsd'' insn)
      | X86I_SUB \<Rightarrow> Some (USUAL_2OP rn ''sub'' insn)
      | X86I_SUBSS \<Rightarrow> Some (USUAL_2OP rn ''subss'' insn)
      | X86I_SUBSD \<Rightarrow> Some (USUAL_2OP rn ''subsd'' insn)
      | X86I_MUL \<Rightarrow> Some (USUAL_1OP rn ''mul'' insn)
      | X86I_IMUL \<Rightarrow> Some (USUAL_2OP rn ''imul'' insn)
      | X86I_MULSS \<Rightarrow> Some (USUAL_2OP rn ''mulss'' insn)
      | X86I_MULSD \<Rightarrow> Some (USUAL_2OP rn ''mulsd'' insn)
      | X86I_DIV \<Rightarrow> Some (USUAL_1OP rn ''div'' insn)
      | X86I_IDIV \<Rightarrow> Some (USUAL_1OP rn ''idiv'' insn)
      | X86I_DIVSS \<Rightarrow> Some (USUAL_2OP rn ''divss'' insn)
      | X86I_DIVSD \<Rightarrow> Some (USUAL_2OP rn ''divsd'' insn)
      | X86I_XOR \<Rightarrow> Some (USUAL_2OP rn ''xor'' insn)
      | X86I_XORPS \<Rightarrow> Some (USUAL_2OP rn ''xorps'' insn)
      | X86I_XORPD \<Rightarrow> Some (USUAL_2OP rn ''xorpd'' insn)
      | X86I_CVTSD2SS \<Rightarrow> Some (USUAL_2OP rn ''cvtsd2ss'' insn)
      | X86I_CVTSS2SD \<Rightarrow> Some (USUAL_2OP rn ''cvtss2sd'' insn)
      | X86I_CVTSI2SS \<Rightarrow> Some (USUAL_2OP rn ''cvtsi2ss'' insn)
      | X86I_CVTSI2SD \<Rightarrow> Some (USUAL_2OP rn ''cvtsi2sd'' insn)
      | X86I_CVTTSS2SI \<Rightarrow> Some (USUAL_2OP rn ''cvttss2si'' insn)
      | X86I_CVTTSD2SI \<Rightarrow> Some (USUAL_2OP rn ''cvttsd2si'' insn)
      | X86I_COMISS \<Rightarrow> Some (USUAL_2OP rn ''comiss'' insn)
      | X86I_COMISD \<Rightarrow> Some (USUAL_2OP rn ''comisd'' insn)
      | X86I_UCOMISS \<Rightarrow> Some (USUAL_2OP rn ''ucomiss'' insn)
      | X86I_UCOMISD \<Rightarrow> Some (USUAL_2OP rn ''ucomisd'' insn)
      | X86I_TEST \<Rightarrow> Some (USUAL_2OP rn ''test'' insn)
      | X86I_PTEST \<Rightarrow> Some (USUAL_2OP rn ''ptest'' insn)
      | X86I_REP_STOSB \<Rightarrow> Some (INDENT @ ''rep stosb'')
      | X86I_SHL \<Rightarrow> Some (shift_2op rn ''shl'' insn)
      | X86I_SHR \<Rightarrow> Some (shift_2op rn ''shr'' insn)
      | X86I_SAR \<Rightarrow> Some (shift_2op rn ''sar'' insn)
      | X86I_ROR \<Rightarrow> Some (shift_2op rn ''ror'' insn)
      | _ \<Rightarrow> Some [])"

definition x86_write_insn :: "register_name \<Rightarrow> x86_insn \<Rightarrow> string option" where
  "x86_write_insn rn insn =
     (if itype insn = X86I_SKIP then Some []
      else map_option (\<lambda>s. s @ [CHR 0x0A]) (x86_write_insn_body rn insn))"

section \<open>Backend: callee-saved registers, the varargs save area, and a whole routine\<close>

definition X86_INSN_WRITES_OP1 :: "8 word" where "X86_INSN_WRITES_OP1 = 0x01"
definition X86_INSN_WRITES_OP2 :: "8 word" where "X86_INSN_WRITES_OP2 = 0x02"
definition X86_INSN_WRITES_OP3 :: "8 word" where "X86_INSN_WRITES_OP3 = 0x04"

definition x86_insn_writes :: "x86_insn_type \<Rightarrow> 8 word" where
  "x86_insn_writes t =
     (case t of
        X86I_POP \<Rightarrow> X86_INSN_WRITES_OP1
      | X86I_SETE \<Rightarrow> X86_INSN_WRITES_OP1 | X86I_SETNE \<Rightarrow> X86_INSN_WRITES_OP1
      | X86I_SETLE \<Rightarrow> X86_INSN_WRITES_OP1 | X86I_SETL \<Rightarrow> X86_INSN_WRITES_OP1
      | X86I_SETGE \<Rightarrow> X86_INSN_WRITES_OP1 | X86I_SETG \<Rightarrow> X86_INSN_WRITES_OP1
      | X86I_SETA \<Rightarrow> X86_INSN_WRITES_OP1 | X86I_SETNB \<Rightarrow> X86_INSN_WRITES_OP1
      | X86I_SETP \<Rightarrow> X86_INSN_WRITES_OP1 | X86I_SETNP \<Rightarrow> X86_INSN_WRITES_OP1
      | X86I_NOT \<Rightarrow> X86_INSN_WRITES_OP1 | X86I_NEG \<Rightarrow> X86_INSN_WRITES_OP1
      | X86I_MUL \<Rightarrow> X86_INSN_WRITES_OP1
      | X86I_LEA \<Rightarrow> X86_INSN_WRITES_OP2
      | X86I_AND \<Rightarrow> X86_INSN_WRITES_OP2 | X86I_OR \<Rightarrow> X86_INSN_WRITES_OP2
      | X86I_XOR \<Rightarrow> X86_INSN_WRITES_OP2 | X86I_MOV \<Rightarrow> X86_INSN_WRITES_OP2
      | X86I_MOVZX \<Rightarrow> X86_INSN_WRITES_OP2 | X86I_MOVSX \<Rightarrow> X86_INSN_WRITES_OP2
      | X86I_ADD \<Rightarrow> X86_INSN_WRITES_OP2 | X86I_SUB \<Rightarrow> X86_INSN_WRITES_OP2
      | X86I_IMUL \<Rightarrow> X86_INSN_WRITES_OP2
      | X86I_DIV \<Rightarrow> X86_INSN_WRITES_OP2 | X86I_IDIV \<Rightarrow> X86_INSN_WRITES_OP2
      | X86I_SHL \<Rightarrow> X86_INSN_WRITES_OP2 | X86I_SHR \<Rightarrow> X86_INSN_WRITES_OP2
      | X86I_SAR \<Rightarrow> X86_INSN_WRITES_OP2 | X86I_ROR \<Rightarrow> X86_INSN_WRITES_OP2
      | X86I_MOVSS \<Rightarrow> X86_INSN_WRITES_OP2 | X86I_MOVSD \<Rightarrow> X86_INSN_WRITES_OP2
      | X86I_ADDSS \<Rightarrow> X86_INSN_WRITES_OP2 | X86I_ADDSD \<Rightarrow> X86_INSN_WRITES_OP2
      | X86I_SUBSS \<Rightarrow> X86_INSN_WRITES_OP2 | X86I_SUBSD \<Rightarrow> X86_INSN_WRITES_OP2
      | X86I_MULSS \<Rightarrow> X86_INSN_WRITES_OP2 | X86I_MULSD \<Rightarrow> X86_INSN_WRITES_OP2
      | X86I_DIVSS \<Rightarrow> X86_INSN_WRITES_OP2 | X86I_DIVSD \<Rightarrow> X86_INSN_WRITES_OP2
      | X86I_XORPS \<Rightarrow> X86_INSN_WRITES_OP2 | X86I_XORPD \<Rightarrow> X86_INSN_WRITES_OP2
      | X86I_CVTSD2SS \<Rightarrow> X86_INSN_WRITES_OP2 | X86I_CVTSS2SD \<Rightarrow> X86_INSN_WRITES_OP2
      | X86I_CVTSI2SS \<Rightarrow> X86_INSN_WRITES_OP2 | X86I_CVTSI2SD \<Rightarrow> X86_INSN_WRITES_OP2
      | X86I_CVTTSS2SI \<Rightarrow> X86_INSN_WRITES_OP2 | X86I_CVTTSD2SI \<Rightarrow> X86_INSN_WRITES_OP2
      | _ \<Rightarrow> 0)"

text \<open>
  Modelled from the spec: the macros \<^verbatim>\<open>USED_NONVOLATILES_*\<close> are defined in \<^verbatim>\<open>ecc.h\<close>, which
  is not among the sources. The spec calls \<^verbatim>\<open>used_nonvolatiles\<close> "a bitmask [that] records
  which were used": one bit per register, here bits 0 to 4 of the 16-bit flag type of
  \<^verbatim>\<open>NONVOLATILE_FLAGS\<close>.
\<close>

definition USED_NONVOLATILES_RBX :: "16 word" where "USED_NONVOLATILES_RBX = 0x01"
definition USED_NONVOLATILES_R12 :: "16 word" where "USED_NONVOLATILES_R12 = 0x02"
definition USED_NONVOLATILES_R13 :: "16 word" where "USED_NONVOLATILES_R13 = 0x04"
definition USED_NONVOLATILES_R14 :: "16 word" where "USED_NONVOLATILES_R14 = 0x08"
definition USED_NONVOLATILES_R15 :: "16 word" where "USED_NONVOLATILES_R15 = 0x10"

text \<open>
  The scan reads \<^verbatim>\<open>insn->op1->reg\<close> whatever the tag of the first operand is. For a
  register operand that is its register; for any other operand it is whatever the bytes
  of the union hold, given by the parameter \<open>lay\<close> (the layout of \<^verbatim>\<open>x86_operand_t\<close>).
\<close>

type_synonym union_layout = "x86_operand_content \<Rightarrow> regid_t"

definition operand_reg_field :: "union_layout \<Rightarrow> x86_operand \<Rightarrow> regid_t" where
  "operand_reg_field lay p =
     (case op_content p of
        X86OP_REGISTER r \<Rightarrow> r
      | X86OP_PTR_REGISTER r \<Rightarrow> r
      | c \<Rightarrow> lay c)"

definition is_register_operand :: "x86_operand \<Rightarrow> bool" where
  "is_register_operand p = (case op_content p of X86OP_REGISTER r \<Rightarrow> True | _ \<Rightarrow> False)"

text \<open>The \<^verbatim>\<open>switch (insn->op1->reg)\<close> with its five cases and the empty default.\<close>

definition mark_nonvolatile :: "regid_t \<Rightarrow> 16 word \<Rightarrow> 16 word" where
  "mark_nonvolatile r used =
     (case r of
        X86R_RBX \<Rightarrow> used OR USED_NONVOLATILES_RBX
      | X86R_R12 \<Rightarrow> used OR USED_NONVOLATILES_R12
      | X86R_R13 \<Rightarrow> used OR USED_NONVOLATILES_R13
      | X86R_R14 \<Rightarrow> used OR USED_NONVOLATILES_R14
      | X86R_R15 \<Rightarrow> used OR USED_NONVOLATILES_R15
      | _ \<Rightarrow> used)"

text \<open>One turn of the inner loop over \<^verbatim>\<open>ops[i]\<close> with \<^verbatim>\<open>write_states[i]\<close>.\<close>

definition scan_operand ::
  "union_layout \<Rightarrow> x86_insn \<Rightarrow> 8 word \<Rightarrow> x86_operand option \<Rightarrow> 16 word \<Rightarrow> 16 word option"
where
  "scan_operand lay insn write_state opi used =
     (case opi of
        None \<Rightarrow> Some used
      | Some p \<Rightarrow>
          (if (x86_insn_writes (itype insn) AND write_state) \<noteq> 0 \<and> is_register_operand p
           then (case op1 insn of
                   None \<Rightarrow> None
                 | Some p1 \<Rightarrow> Some (mark_nonvolatile (operand_reg_field lay p1) used))
           else Some used))"

definition scan_insn :: "union_layout \<Rightarrow> x86_insn \<Rightarrow> 16 word \<Rightarrow> 16 word option" where
  "scan_insn lay insn used =
     Option.bind (scan_operand lay insn X86_INSN_WRITES_OP1 (op1 insn) used) (\<lambda>u1.
     Option.bind (scan_operand lay insn X86_INSN_WRITES_OP2 (op2 insn) u1) (\<lambda>u2.
     scan_operand lay insn X86_INSN_WRITES_OP3 (op3 insn) u2))"

fun scan_insns :: "union_layout \<Rightarrow> x86_insn list \<Rightarrow> 16 word \<Rightarrow> 16 word option" where
  "scan_insns lay [] used = Some used"
| "scan_insns lay (insn # rest) used =
     (case scan_insn lay insn used of None \<Rightarrow> None | Some u \<Rightarrow> scan_insns lay rest u)"

definition x86_find_used_nonvolatiles ::
  "union_layout \<Rightarrow> x86_asm_routine \<Rightarrow> x86_asm_routine option" where
  "x86_find_used_nonvolatiles lay routine =
     map_option (\<lambda>u. routine\<lparr>used_nonvolatiles := u\<rparr>)
       (scan_insns lay (insns routine) (used_nonvolatiles routine))"

definition NONVOLATILE_FLAGS :: "16 word list" where
  "NONVOLATILE_FLAGS =
     [USED_NONVOLATILES_RBX, USED_NONVOLATILES_R12, USED_NONVOLATILES_R13,
      USED_NONVOLATILES_R14, USED_NONVOLATILES_R15]"

definition NONVOLATILE_REGISTER_NAMES :: "string list" where
  "NONVOLATILE_REGISTER_NAMES = [''rbx'', ''r12'', ''r13'', ''r14'', ''r15'']"

text \<open>The indices \<open>i\<close> whose flag is set, in the order the loop visits them.\<close>

definition flagged :: "16 word \<Rightarrow> nat list \<Rightarrow> nat list" where
  "flagged used is = filter (\<lambda>i. (used AND NONVOLATILE_FLAGS ! i) \<noteq> 0) is"

definition x86_write_routine_push_nonvolatiles :: "x86_asm_routine \<Rightarrow> string list" where
  "x86_write_routine_push_nonvolatiles routine =
     map (\<lambda>i. ''    pushq %'' @ NONVOLATILE_REGISTER_NAMES ! i @ [CHR 0x0A])
       (flagged (used_nonvolatiles routine) [0 ..< length NONVOLATILE_FLAGS])"

definition x86_write_routine_pop_nonvolatiles :: "x86_asm_routine \<Rightarrow> string list" where
  "x86_write_routine_pop_nonvolatiles routine =
     map (\<lambda>i. ''    popq %'' @ NONVOLATILE_REGISTER_NAMES ! i @ [CHR 0x0A])
       (flagged (used_nonvolatiles routine) (rev [0 ..< length NONVOLATILE_FLAGS]))"

text \<open>
  \<^verbatim>\<open>x86_write_varargs_setup\<close>: fifteen fixed lines, each a store of one register to a
  displacement from \<^verbatim>\<open>%rbp\<close>. The table holds the mnemonic, the register and the
  displacement of each \<^verbatim>\<open>fprintf\<close>, in the order of the calls.
\<close>

definition varargs_stores :: "(string \<times> string \<times> int) list" where
  "varargs_stores =
     [(''movq'', ''r9'', -8),
      (''movq'', ''r8'', -16),
      (''movq'', ''rcx'', -16),
      (''movq'', ''rdx'', -24),
      (''movq'', ''rdx'', -32),
      (''movq'', ''rsi'', -40),
      (''movq'', ''rdi'', -48),
      (''movaps'', ''xmm7'', -64),
      (''movaps'', ''xmm6'', -80),
      (''movaps'', ''xmm5'', -96),
      (''movaps'', ''xmm4'', -112),
      (''movaps'', ''xmm3'', -128),
      (''movaps'', ''xmm2'', -144),
      (''movaps'', ''xmm1'', -160),
      (''movaps'', ''xmm0'', -176)]"

definition store_line :: "string \<times> string \<times> int \<Rightarrow> string" where
  "store_line s =
     (case s of (mn, reg, disp) \<Rightarrow>
        ''    '' @ mn @ '' %'' @ reg @ '', '' @ string_of_int disp @ ''(%rbp)'' @ [CHR 0x0A])"

definition x86_write_varargs_setup :: "string list" where
  "x86_write_varargs_setup = map store_line varargs_stores"

text \<open>Modelled from the spec: \<^verbatim>\<open>starts_with_ignore_case\<close> is a utility outside the sources;
  by its name, a prefix test that ignores the case of letters.\<close>

definition lower_char :: "char \<Rightarrow> char" where
  "lower_char c =
     (if 65 \<le> (of_char c :: nat) \<and> (of_char c :: nat) \<le> 90 then char_of (of_char c + 32 :: nat)
      else c)"

definition starts_with_ignore_case :: "string \<Rightarrow> string \<Rightarrow> bool" where
  "starts_with_ignore_case s p =
     (length p \<le> length s \<and> map lower_char (take (length p) s) = map lower_char p)"

text \<open>
  The loop of \<^verbatim>\<open>x86_write_routine\<close> over the instructions: the text so far and the count
  \<^verbatim>\<open>lr_jumps\<close>. A jump to a label that starts with \<^verbatim>\<open>.LR\<close> is not printed when it is the
  last instruction.
\<close>

definition is_lr_jump :: "x86_insn \<Rightarrow> bool option" where
  "is_lr_jump insn =
     (if itype insn = X86I_JMP then
        (case op1 insn of
           None \<Rightarrow> None
         | Some p \<Rightarrow>
             Some (case op_content p of
                     X86OP_LABEL l \<Rightarrow> starts_with_ignore_case l ''.LR''
                   | _ \<Rightarrow> False))
      else Some False)"

fun write_insns :: "register_name \<Rightarrow> x86_insn list \<Rightarrow> (string \<times> nat) option" where
  "write_insns rn [] = Some ([], 0)"
| "write_insns rn (insn # rest) =
     (case is_lr_jump insn of
        None \<Rightarrow> None
      | Some lr \<Rightarrow>
          (if lr \<and> rest = [] then write_insns rn rest
           else
             (case x86_write_insn rn insn of
                None \<Rightarrow> None
              | Some t \<Rightarrow>
                  (case write_insns rn rest of
                     None \<Rightarrow> None
                   | Some (ts, n) \<Rightarrow> Some (t @ ts, (if lr then Suc n else n))))))"

definition x86_write_routine ::
  "register_name \<Rightarrow> union_layout \<Rightarrow> x86_asm_routine \<Rightarrow> string option" where
  "x86_write_routine rn lay routine0 =
     (case x86_find_used_nonvolatiles lay routine0 of
        None \<Rightarrow> None
      | Some routine \<Rightarrow>
          (case write_insns rn (insns routine) of
             None \<Rightarrow> None
           | Some (body, lr_jumps) \<Rightarrow>
               Some (
                 (if global routine then ''    .globl '' @ label routine @ [CHR 0x0A] else [])
                 @ label routine @ '':'' @ [CHR 0x0A]
                 @ ''    pushq %rbp'' @ [CHR 0x0A]
                 @ ''    movq %rsp, %rbp'' @ [CHR 0x0A]
                 @ (if stackalloc routine \<noteq> 0 then
                      (let v = llabs (stackalloc routine) in
                         ''    subq $'' @ string_of_int (llong (v + c_rem (16 - c_rem v 16) 16))
                         @ '', %rsp'' @ [CHR 0x0A])
                    else [])
                 @ concat (x86_write_routine_push_nonvolatiles routine)
                 @ (if uses_varargs routine then concat x86_write_varargs_setup else [])
                 @ body
                 @ (if lr_jumps > 0 then
                      ''.LR'' @ string_of_nat (routine_id routine) @ '':'' @ [CHR 0x0A]
                    else [])
                 @ concat (x86_write_routine_pop_nonvolatiles routine)
                 @ ''    leave'' @ [CHR 0x0A]
                 @ ''    ret'' @ [CHR 0x0A])))"

section \<open>C types\<close>

text \<open>
  The type classes of \<^verbatim>\<open>c_type_class_t\<close> (declared in \<^verbatim>\<open>ecc.h\<close>). A type is a class, a
  qualifier bitmask and the payload of its class: the pointee of a pointer, the element
  type and length of an array (length \<open>-1\<close> while unspecified, and whether a length
  expression was written), the members of a structure or union, the return and parameter
  types of a function. The selectors are the fields the C code reads after it has tested
  the class.
\<close>

datatype c_type_class =
    CTC_BOOL | CTC_CHAR | CTC_SIGNED_CHAR | CTC_SHORT_INT | CTC_INT | CTC_LONG_INT
  | CTC_LONG_LONG_INT | CTC_UNSIGNED_CHAR | CTC_UNSIGNED_SHORT_INT | CTC_UNSIGNED_INT
  | CTC_UNSIGNED_LONG_INT | CTC_UNSIGNED_LONG_LONG_INT | CTC_FLOAT | CTC_DOUBLE
  | CTC_LONG_DOUBLE | CTC_ENUMERATED | CTC_VOID | CTC_ARRAY | CTC_STRUCTURE | CTC_UNION
  | CTC_FUNCTION | CTC_POINTER | CTC_LABEL | CTC_ERROR

datatype c_type =
    Basic c_type_class (qualifiers: "8 word")
  | Pointer (qualifiers: "8 word") (derived_from: c_type)
  | Array (qualifiers: "8 word") (derived_from: c_type) (array_length: int)
      (length_expression: bool)
  | Structure (qualifiers: "8 word") (member_names: "string list") (member_types: "c_type list")
  | Union (qualifiers: "8 word") (member_names: "string list") (member_types: "c_type list")
  | Function (qualifiers: "8 word") (derived_from: c_type) (param_types: "c_type list")
      (variadic: bool)

fun cclass :: "c_type \<Rightarrow> c_type_class" where
  "cclass (Basic c q) = c"
| "cclass (Pointer q t) = CTC_POINTER"
| "cclass (Array q t n e) = CTC_ARRAY"
| "cclass (Structure q ns ts) = CTC_STRUCTURE"
| "cclass (Union q ns ts) = CTC_UNION"
| "cclass (Function q r ps v) = CTC_FUNCTION"

definition make_basic_type :: "c_type_class \<Rightarrow> c_type" where
  "make_basic_type c = Basic c 0"

section \<open>Backend: AIR operands, symbols and the translation of operands\<close>

datatype storage_duration = SD_UNKNOWN | SD_STATIC | SD_AUTOMATIC | SD_ALLOCATED

datatype declarer_type =
  SC_STRING_LITERAL | SC_COMPOUND_LITERAL | SC_FLOATING_CONSTANT | SC_OTHER_DECLARER

text \<open>
  A symbol as the backend sees it. The functions \<^verbatim>\<open>symbol_get_name\<close>,
  \<^verbatim>\<open>symbol_get_storage_duration\<close>, \<^verbatim>\<open>symbol_get_scope\<close> with \<^verbatim>\<open>scope_is_block\<close> and
  \<^verbatim>\<open>symbol_get_disambiguated_name\<close> live outside the sources; their results are fields of
  the record. \<open>sy_key\<close> is the identity of the symbol object: the mutable field
  \<^verbatim>\<open>sy->stack_offset\<close> is kept in a store indexed by it.
\<close>

record symbol =
  sy_key :: nat
  sy_name :: string
  sy_type :: c_type
  sy_sd :: storage_duration
  sy_scope_is_block :: bool
  sy_declarer :: "declarer_type option"
  sy_disambiguated_name :: string

definition x86_symbol_requires_disambiguation :: "symbol option \<Rightarrow> bool" where
  "x86_symbol_requires_disambiguation syo =
     (case syo of
        None \<Rightarrow> False
      | Some sy \<Rightarrow>
          (if sy_sd sy \<noteq> SD_STATIC then False
           else if \<not> sy_scope_is_block sy then False
           else (case sy_declarer sy of
                   None \<Rightarrow> True
                 | Some SC_STRING_LITERAL \<Rightarrow> False
                 | Some SC_COMPOUND_LITERAL \<Rightarrow> False
                 | Some SC_FLOATING_CONSTANT \<Rightarrow> False
                 | Some _ \<Rightarrow> True)))"

datatype air_operand_content =
    AOP_INDIRECT_REGISTER (inreg_id: regid_t) (inreg_roffset: regid_t) (inreg_factor: int)
      (inreg_offset: int)
  | AOP_REGISTER regid_t
  | AOP_INTEGER_CONSTANT "64 word"
  | AOP_SYMBOL symbol
  | AOP_INDIRECT_SYMBOL symbol int
  | AOP_LABEL char "64 word"
  | AOP_FLOATING_CONSTANT
  | AOP_TYPE

record air_insn_operand =
  aop_content :: air_operand_content
  aop_ct :: c_type

text \<open>
  The part of the generator's state that operand translation reads and writes: the
  routine's \<^verbatim>\<open>stackalloc\<close> and the \<^verbatim>\<open>stack_offset\<close> of every symbol.
\<close>

record frame =
  f_stackalloc :: int
  f_stack_offset :: "nat \<Rightarrow> int"

text \<open>
  \<^verbatim>\<open>air_operand_to_x86_operand\<close>. The parameters \<open>ts\<close> and \<open>ta\<close> are \<^verbatim>\<open>type_size\<close> and
  \<^verbatim>\<open>type_alignment\<close> of the type system. The buffer of the label case has room for the
  longest 64-bit number, so \<^verbatim>\<open>snprintf\<close> does not cut the label. \<^verbatim>\<open>report_return_value(NULL)\<close>
  is the result \<^term>\<open>None\<close> for the operand. A zero alignment would divide by zero; the model
  returns \<^term>\<open>None\<close> for the operand and leaves the frame as it is. \<open>next_stack_offset\<close> is
  the offset computed for a symbol that has none yet: the allocation lowered by the size
  and aligned down, with the remainder passed through \<^verbatim>\<open>abs\<close>.
\<close>

definition next_stack_offset :: "(c_type \<Rightarrow> int) \<Rightarrow> (c_type \<Rightarrow> int) \<Rightarrow> frame \<Rightarrow> symbol \<Rightarrow> int"
where
  "next_stack_offset ts ta fr sy =
     (let syoffset0 = llong (f_stackalloc fr - ts (sy_type sy))
      in llong (syoffset0 - abs_int (c_rem syoffset0 (ta (sy_type sy)))))"

definition air_operand_to_x86_operand ::
  "(c_type \<Rightarrow> int) \<Rightarrow> (c_type \<Rightarrow> int) \<Rightarrow> air_insn_operand \<Rightarrow> frame
     \<Rightarrow> x86_operand option \<times> frame" where
  "air_operand_to_x86_operand ts ta aop fr =
     (case aop_content aop of
        AOP_INDIRECT_REGISTER rid roffset factor off \<Rightarrow>
          (if roffset \<noteq> INVALID_VREGID \<or> factor \<noteq> 1
           then (Some (make_operand_array rid roffset factor off), fr)
           else (Some (make_operand_deref_register rid off), fr))
      | AOP_REGISTER r \<Rightarrow> (Some (make_operand_register r), fr)
      | AOP_INTEGER_CONSTANT ic \<Rightarrow> (Some (make_operand_immediate ic), fr)
      | AOP_LABEL d n \<Rightarrow>
          (Some (make_operand_label (''.L'' @ [d] @ string_of_nat (unat n))), fr)
      | AOP_FLOATING_CONSTANT \<Rightarrow> (None, fr)
      | AOP_TYPE \<Rightarrow> (None, fr)
      | c \<Rightarrow>
          (let sy = (case c of AOP_SYMBOL y \<Rightarrow> y | AOP_INDIRECT_SYMBOL y off \<Rightarrow> y);
               offset = (case c of AOP_INDIRECT_SYMBOL y off \<Rightarrow> off | _ \<Rightarrow> 0)
           in
             if sy_sd sy = SD_STATIC then
               (if x86_symbol_requires_disambiguation (Some sy)
                then (Some (make_operand_label_ref (sy_disambiguated_name sy) offset), fr)
                else (Some (make_operand_label_ref (sy_name sy) offset), fr))
             else if f_stack_offset fr (sy_key sy) \<noteq> 0 then
               (Some (make_operand_deref_register X86R_RBP
                        (llong (f_stack_offset fr (sy_key sy) + offset))), fr)
             else if ta (sy_type sy) = 0 then (None, fr)
             else
               (let syoffset = next_stack_offset ts ta fr sy
                in (Some (make_operand_deref_register X86R_RBP (llong (syoffset + offset))),
                    fr\<lparr>f_stackalloc := syoffset,
                       f_stack_offset := (f_stack_offset fr)(sy_key sy := syoffset)\<rparr>))))"

definition c_type_to_x86_operand_size :: "(c_type \<Rightarrow> int) \<Rightarrow> c_type \<Rightarrow> x86_insn_size" where
  "c_type_to_x86_operand_size ts ct =
     (let sz = ts ct in
        if sz = 1 then X86SZ_BYTE
        else if sz = 2 then X86SZ_WORD
        else if sz = 4 then X86SZ_DWORD
        else if sz = 8 then X86SZ_QWORD
        else X86SZ_QWORD)"

section \<open>Backend: the assembly file and the lazily created conversion limit\<close>

text \<open>
  The bytes of a data object. The limit objects are written through a \<^verbatim>\<open>float*\<close> or a
  \<^verbatim>\<open>double*\<close>; their content is kept as the number stored, which is a whole number.
\<close>

datatype data_content =
    DATA_BYTES "8 word list"
  | DATA_FLOAT int
  | DATA_DOUBLE int

record x86_asm_data =
  d_alignment :: nat
  d_label :: string
  d_data :: data_content
  d_length :: nat
  d_readonly :: bool

text \<open>
  The fields of \<^verbatim>\<open>x86_asm_file_t\<close> that the conversions use. \<open>st\<close> is the symbol table;
  \<^verbatim>\<open>symbol_table_add\<close> appends (spec: "\<^verbatim>\<open>add(name, symbol)\<close> appends in insertion order").
\<close>

record x86_asm_file =
  next_constant_local_label :: "64 word"
  next_routine_id :: "64 word"
  sse32_i64_limit :: "symbol option"
  sse64_i64_limit :: "symbol option"
  rodata :: "x86_asm_data list"
  st :: "(string \<times> symbol) list"
  next_symbol_key :: nat

definition FLOAT_WIDTH :: nat where "FLOAT_WIDTH = 4"
definition DOUBLE_WIDTH :: nat where "DOUBLE_WIDTH = 8"

definition x86_asm_file_create_next_label :: "x86_asm_file \<Rightarrow> string \<times> x86_asm_file" where
  "x86_asm_file_create_next_label file =
     (''.LGEN'' @ string_of_nat (unat (next_constant_local_label file + 1)),
      file\<lparr>next_constant_local_label := next_constant_local_label file + 1\<rparr>)"

text \<open>
  \<^verbatim>\<open>symbol_init(NULL)\<close> followed by the assignments of \<^verbatim>\<open>x86_64_get_sse_i64_limit\<close>: a fresh
  symbol without declarer, with the given name, static storage duration and basic type.
\<close>

definition limit_symbol :: "nat \<Rightarrow> string \<Rightarrow> c_type_class \<Rightarrow> symbol" where
  "limit_symbol k name c =
     \<lparr>sy_key = k, sy_name = name, sy_type = make_basic_type c, sy_sd = SD_STATIC,
      sy_scope_is_block = False, sy_declarer = None, sy_disambiguated_name = name\<rparr>"

definition x86_64_get_sse_i64_limit :: "c_type_class \<Rightarrow> x86_asm_file \<Rightarrow> symbol \<times> x86_asm_file"
where
  "x86_64_get_sse_i64_limit c file =
     (let is_float = (c = CTC_FLOAT) in
      case (if is_float then sse32_i64_limit file else sse64_i64_limit file) of
        Some limit \<Rightarrow> (limit, file)
      | None \<Rightarrow>
          (if is_float then
             (let limit = limit_symbol (next_symbol_key file) ''__sse32_i64_limit'' CTC_FLOAT;
                  data = \<lparr>d_alignment = FLOAT_WIDTH, d_label = sy_name limit,
                          d_data = DATA_FLOAT 9223372036854775808,
                          d_length = FLOAT_WIDTH, d_readonly = True\<rparr>
              in (limit,
                  file\<lparr>sse32_i64_limit := Some limit,
                       st := st file @ [(''__sse32_i64_limit'', limit)],
                       next_symbol_key := Suc (next_symbol_key file),
                       rodata := rodata file @ [data]\<rparr>))
           else
             (let limit = limit_symbol (next_symbol_key file) ''__sse64_i64_limit'' CTC_DOUBLE;
                  data = \<lparr>d_alignment = DOUBLE_WIDTH, d_label = sy_name limit,
                          d_data = DATA_DOUBLE 9223372036854775808,
                          d_length = DOUBLE_WIDTH, d_readonly = True\<rparr>
              in (limit,
                  file\<lparr>sse64_i64_limit := Some limit,
                       st := st file @ [(''__sse64_i64_limit'', limit)],
                       next_symbol_key := Suc (next_symbol_key file),
                       rodata := rodata file @ [data]\<rparr>))))"

section \<open>Backend: conversions between SSE values and unsigned integers\<close>

text \<open>
  An AIR instruction: its result type \<^verbatim>\<open>ct\<close> and its operands \<^verbatim>\<open>ops[0..2]\<close>. The
  dispatcher \<^verbatim>\<open>x86_generate_insn\<close> sends \<^verbatim>\<open>AIR_S2UI\<close> and \<^verbatim>\<open>AIR_D2UI\<close> to
  \<^verbatim>\<open>x86_generate_sse2unsigned\<close>, and \<^verbatim>\<open>AIR_UI2S\<close> and \<^verbatim>\<open>AIR_UI2D\<close> to
  \<^verbatim>\<open>x86_generate_unsigned2sse\<close>. A generator returns the instructions it chained through
  \<^verbatim>\<open>next\<close>, with the frame and the file as it left them, or \<^term>\<open>None\<close> when it dereferences
  a null operand.
\<close>

record air_insn =
  a_ct :: c_type
  ops0 :: "air_insn_operand option"
  ops1 :: "air_insn_operand option"
  ops2 :: "air_insn_operand option"

text \<open>The assignment \<^verbatim>\<open>op->size = sz\<close> through a pointer that is known not to be null.\<close>

definition set_op_size :: "x86_insn_size \<Rightarrow> x86_operand \<Rightarrow> x86_operand" where
  "set_op_size sz p = p\<lparr>op_size := sz\<rparr>"

definition x86_generate_sse2u64 ::
  "(c_type \<Rightarrow> int) \<Rightarrow> (c_type \<Rightarrow> int) \<Rightarrow> air_insn \<Rightarrow> frame \<Rightarrow> x86_asm_file
     \<Rightarrow> (x86_insn list \<times> frame \<times> x86_asm_file) option" where
  "x86_generate_sse2u64 ts ta ainsn fr0 file0 =
     (case (ops0 ainsn, ops1 ainsn) of
        (Some a0, Some a1) \<Rightarrow>
          (let opt = aop_ct a1;
               is_float = (cclass opt = CTC_FLOAT);
               (limit, file1) = x86_64_get_sse_i64_limit (cclass opt) file0;
               (cmp_op2, fr1) = air_operand_to_x86_operand ts ta a1 fr0;
               (gte_label_name, file2) = x86_asm_file_create_next_label file1;
               (after_label_name, file3) = x86_asm_file_create_next_label file2;
               (cvt1_op1, fr2) = air_operand_to_x86_operand ts ta a1 fr1;
               (cvt1_op2, fr3) = air_operand_to_x86_operand ts ta a0 fr2;
               (sub_op2, fr4) = air_operand_to_x86_operand ts ta a1 fr3;
               (cvt2_op1, fr5) = air_operand_to_x86_operand ts ta a1 fr4;
               (cvt2_op2, fr6) = air_operand_to_x86_operand ts ta a0 fr5;
               (shl_op2, fr7) = air_operand_to_x86_operand ts ta a0 fr6;
               (or_op2, fr8) = air_operand_to_x86_operand ts ta a0 fr7;
               (ror_op2, fr9) = air_operand_to_x86_operand ts ta a0 fr8
           in
             (case (cvt1_op1, cvt2_op1) of
                (Some c1, Some c2) \<Rightarrow>
                  Some (
                    [(make_basic_x86_insn (if is_float then X86I_COMISS else X86I_COMISD))
                       \<lparr>isize := c_type_to_x86_operand_size ts opt,
                        op1 := Some (make_operand_label_ref (sy_name limit) 0),
                        op2 := cmp_op2\<rparr>,
                     (make_basic_x86_insn X86I_JNB)
                       \<lparr>op1 := Some (make_operand_label gte_label_name)\<rparr>,
                     (make_basic_x86_insn (if is_float then X86I_CVTTSS2SI else X86I_CVTTSD2SI))
                       \<lparr>isize := X86SZ_QWORD,
                        op1 := Some (set_op_size (c_type_to_x86_operand_size ts opt) c1),
                        op2 := cvt1_op2\<rparr>,
                     (make_basic_x86_insn X86I_JMP)
                       \<lparr>op1 := Some (make_operand_label after_label_name)\<rparr>,
                     (make_basic_x86_insn X86I_LABEL)
                       \<lparr>op1 := Some (make_operand_label gte_label_name)\<rparr>,
                     (make_basic_x86_insn (if is_float then X86I_SUBSS else X86I_SUBSD))
                       \<lparr>isize := c_type_to_x86_operand_size ts opt,
                        op1 := Some (make_operand_label_ref (sy_name limit) 0),
                        op2 := sub_op2\<rparr>,
                     (make_basic_x86_insn (if is_float then X86I_CVTTSS2SI else X86I_CVTTSD2SI))
                       \<lparr>isize := X86SZ_QWORD,
                        op1 := Some (set_op_size (c_type_to_x86_operand_size ts opt) c2),
                        op2 := cvt2_op2\<rparr>,
                     (make_basic_x86_insn X86I_SHL)
                       \<lparr>isize := X86SZ_QWORD, op1 := Some (make_operand_immediate 1),
                        op2 := shl_op2\<rparr>,
                     (make_basic_x86_insn X86I_OR)
                       \<lparr>isize := X86SZ_BYTE, op1 := Some (make_operand_immediate 1),
                        op2 := or_op2\<rparr>,
                     (make_basic_x86_insn X86I_ROR)
                       \<lparr>isize := X86SZ_QWORD, op1 := Some (make_operand_immediate 1),
                        op2 := ror_op2\<rparr>,
                     (make_basic_x86_insn X86I_LABEL)
                       \<lparr>op1 := Some (make_operand_label after_label_name)\<rparr>],
                    fr9, file3)
              | _ \<Rightarrow> None))
      | _ \<Rightarrow> None)"

text \<open>
  \<^verbatim>\<open>x86_generate_sse2unsigned\<close>: the 64-bit destination goes to the branchful sequence,
  a narrower one to a single truncating conversion.
\<close>

definition widen_sse2unsigned :: "x86_insn_size \<Rightarrow> x86_insn_size" where
  "widen_sse2unsigned sz =
     (if sz = X86SZ_DWORD then X86SZ_QWORD
      else if sz = X86SZ_UNSET \<or> sz = X86SZ_BYTE \<or> sz = X86SZ_WORD then X86SZ_DWORD
      else sz)"

definition x86_generate_sse2unsigned ::
  "(c_type \<Rightarrow> int) \<Rightarrow> (c_type \<Rightarrow> int) \<Rightarrow> air_insn \<Rightarrow> frame \<Rightarrow> x86_asm_file
     \<Rightarrow> (x86_insn list \<times> frame \<times> x86_asm_file) option" where
  "x86_generate_sse2unsigned ts ta ainsn fr0 file0 =
     (case (ops0 ainsn, ops1 ainsn) of
        (Some a0, Some a1) \<Rightarrow>
          (let opt = aop_ct a1;
               sz = c_type_to_x86_operand_size ts (a_ct ainsn)
           in
             if sz = X86SZ_QWORD then x86_generate_sse2u64 ts ta ainsn fr0 file0
             else
               (let is_float = (cclass opt = CTC_FLOAT);
                    (i_op1, fr1) = air_operand_to_x86_operand ts ta a1 fr0;
                    (i_op2, fr2) = air_operand_to_x86_operand ts ta a0 fr1
                in
                  (case i_op1 of
                     None \<Rightarrow> None
                   | Some p \<Rightarrow>
                       Some (
                         [(make_basic_x86_insn
                             (if is_float then X86I_CVTTSS2SI else X86I_CVTTSD2SI))
                            \<lparr>isize := widen_sse2unsigned sz,
                             op1 := Some (set_op_size (c_type_to_x86_operand_size ts opt) p),
                             op2 := i_op2\<rparr>],
                         fr2, file0))))
      | _ \<Rightarrow> None)"

definition x86_generate_u642sse ::
  "(c_type \<Rightarrow> int) \<Rightarrow> (c_type \<Rightarrow> int) \<Rightarrow> air_insn \<Rightarrow> frame \<Rightarrow> x86_asm_file
     \<Rightarrow> (x86_insn list \<times> frame \<times> x86_asm_file) option" where
  "x86_generate_u642sse ts ta ainsn fr0 file0 =
     (case (ops0 ainsn, ops1 ainsn) of
        (Some a0, Some a1) \<Rightarrow>
          (let sz = c_type_to_x86_operand_size ts (a_ct ainsn);
               opt = aop_ct a1;
               is_float = (cclass (a_ct ainsn) = CTC_FLOAT);
               (limit, file1) = x86_64_get_sse_i64_limit (cclass (a_ct ainsn)) file0;
               (xor_op1, fr1) = air_operand_to_x86_operand ts ta a0 fr0;
               (xor_op2, fr2) = air_operand_to_x86_operand ts ta a0 fr1;
               (test_op1, fr3) = air_operand_to_x86_operand ts ta a1 fr2;
               (test_op2, fr4) = air_operand_to_x86_operand ts ta a1 fr3;
               (gte_label_name, file2) = x86_asm_file_create_next_label file1;
               (after_label_name, file3) = x86_asm_file_create_next_label file2;
               (cvt1_op1, fr5) = air_operand_to_x86_operand ts ta a1 fr4;
               (cvt1_op2, fr6) = air_operand_to_x86_operand ts ta a0 fr5;
               (shl_op2, fr7) = air_operand_to_x86_operand ts ta a1 fr6;
               (shr_op2, fr8) = air_operand_to_x86_operand ts ta a1 fr7;
               (cvt2_op1, fr9) = air_operand_to_x86_operand ts ta a1 fr8;
               (cvt2_op2, fr10) = air_operand_to_x86_operand ts ta a0 fr9;
               (add_op2, fr11) = air_operand_to_x86_operand ts ta a0 fr10
           in
             Some (
               [(make_basic_x86_insn (if is_float then X86I_XORPS else X86I_XORPD))
                  \<lparr>isize := sz, op1 := xor_op1, op2 := xor_op2\<rparr>,
                (make_basic_x86_insn X86I_TEST)
                  \<lparr>isize := X86SZ_QWORD, op1 := test_op1, op2 := test_op2\<rparr>,
                (make_basic_x86_insn X86I_JS)
                  \<lparr>op1 := Some (make_operand_label gte_label_name)\<rparr>,
                (make_basic_x86_insn (if is_float then X86I_CVTSI2SS else X86I_CVTSI2SD))
                  \<lparr>isize := X86SZ_QWORD, op1 := cvt1_op1, op2 := cvt1_op2\<rparr>,
                (make_basic_x86_insn X86I_JMP)
                  \<lparr>op1 := Some (make_operand_label after_label_name)\<rparr>,
                (make_basic_x86_insn X86I_LABEL)
                  \<lparr>op1 := Some (make_operand_label gte_label_name)\<rparr>,
                (make_basic_x86_insn X86I_SHL)
                  \<lparr>isize := X86SZ_QWORD, op1 := Some (make_operand_immediate 1),
                   op2 := shl_op2\<rparr>,
                (make_basic_x86_insn X86I_SHR)
                  \<lparr>isize := X86SZ_QWORD, op1 := Some (make_operand_immediate 1),
                   op2 := shr_op2\<rparr>,
                (make_basic_x86_insn (if is_float then X86I_CVTSI2SS else X86I_CVTSI2SD))
                  \<lparr>isize := X86SZ_QWORD, op1 := cvt2_op1, op2 := cvt2_op2\<rparr>,
                (make_basic_x86_insn (if is_float then X86I_ADDSS else X86I_ADDSD))
                  \<lparr>isize := c_type_to_x86_operand_size ts opt,
                   op1 := Some (make_operand_label_ref (sy_name limit) 0),
                   op2 := add_op2\<rparr>,
                (make_basic_x86_insn X86I_LABEL)
                  \<lparr>op1 := Some (make_operand_label after_label_name)\<rparr>],
               fr11, file3))
      | _ \<Rightarrow> None)"

text \<open>
  \<^verbatim>\<open>x86_generate_unsigned2sse\<close>. The parameter \<open>below_int\<close> is the test
  \<^verbatim>\<open>get_integer_conversion_rank(opt) < get_integer_type_conversion_rank(CTC_INT)\<close> of the
  type system.
\<close>

definition x86_generate_unsigned2sse ::
  "(c_type \<Rightarrow> int) \<Rightarrow> (c_type \<Rightarrow> int) \<Rightarrow> (c_type \<Rightarrow> bool) \<Rightarrow> air_insn \<Rightarrow> frame
     \<Rightarrow> x86_asm_file \<Rightarrow> (x86_insn list \<times> frame \<times> x86_asm_file) option" where
  "x86_generate_unsigned2sse ts ta below_int ainsn fr0 file0 =
     (case (ops0 ainsn, ops1 ainsn) of
        (Some a0, Some a1) \<Rightarrow>
          (let opt = aop_ct a1 in
             if c_type_to_x86_operand_size ts opt = X86SZ_QWORD
             then x86_generate_u642sse ts ta ainsn fr0 file0
             else
               (let (movzx_op1, fr1) =
                      (if below_int opt then air_operand_to_x86_operand ts ta a1 fr0
                       else (None, fr0));
                    (movzx_op2, fr2) =
                      (if below_int opt then air_operand_to_x86_operand ts ta a1 fr1
                       else (None, fr1));
                    is_float = (cclass (a_ct ainsn) = CTC_FLOAT);
                    (i_op1, fr3) = air_operand_to_x86_operand ts ta a1 fr2;
                    (i_op2, fr4) = air_operand_to_x86_operand ts ta a0 fr3
                in
                  (case (if below_int opt then movzx_op1 else i_op1, i_op1) of
                     (Some m, Some p) \<Rightarrow>
                       Some (
                         (if below_int opt then
                            [(make_basic_x86_insn X86I_MOVZX)
                               \<lparr>isize := X86SZ_DWORD,
                                op1 := Some (set_op_size (c_type_to_x86_operand_size ts opt) m),
                                op2 := movzx_op2\<rparr>]
                          else [])
                         @ [(make_basic_x86_insn
                               (if is_float then X86I_CVTSI2SS else X86I_CVTSI2SD))
                              \<lparr>isize := X86SZ_QWORD,
                               op1 := Some (set_op_size X86SZ_QWORD p),
                               op2 := i_op2\<rparr>],
                         fr4, file0)
                   | _ \<Rightarrow> None)))
      | _ \<Rightarrow> None)"

text \<open>
  The start of \<^verbatim>\<open>x86_generate_routine\<close>, before the loop over the AIR instructions: the
  fresh routine and the frame that the first operand translation will see.
\<close>

record air_routine =
  ar_sy :: symbol
  ar_external_linkage :: bool
  ar_uses_varargs :: bool

definition x86_generate_routine_start ::
  "air_routine \<Rightarrow> x86_asm_file \<Rightarrow> x86_asm_routine \<times> x86_asm_file" where
  "x86_generate_routine_start aroutine file =
     (let file1 = file\<lparr>next_routine_id := next_routine_id file + 1\<rparr>;
          routine = \<lparr>routine_id = unat (next_routine_id file1),
                     global = ar_external_linkage aroutine,
                     label = sy_name (ar_sy aroutine),
                     insns = [],
                     used_nonvolatiles = 0,
                     stackalloc = 0,
                     uses_varargs = False\<rparr>
      in (if ar_uses_varargs aroutine
          then routine\<lparr>stackalloc := stackalloc routine - 176, uses_varargs := True\<rparr>
          else routine,
          file1))"

section \<open>The statements about instruction suffixes, in the words of the specification\<close>

text \<open>
  The mnemonic each instruction type stands for, as the assembler knows it (without any
  size suffix). Types that are not printed as an instruction have none.
\<close>

definition x86_mnemonic :: "x86_insn_type \<Rightarrow> string" where
  "x86_mnemonic t =
     (case t of
        X86I_LEA \<Rightarrow> ''lea'' | X86I_CALL \<Rightarrow> ''call'' | X86I_PUSH \<Rightarrow> ''push''
      | X86I_LEAVE \<Rightarrow> ''leave'' | X86I_RET \<Rightarrow> ''ret''
      | X86I_JMP \<Rightarrow> ''jmp'' | X86I_JE \<Rightarrow> ''je'' | X86I_JNE \<Rightarrow> ''jne''
      | X86I_JNB \<Rightarrow> ''jnb'' | X86I_JS \<Rightarrow> ''js'' | X86I_CMP \<Rightarrow> ''cmp''
      | X86I_SETE \<Rightarrow> ''sete'' | X86I_SETNE \<Rightarrow> ''setne'' | X86I_SETLE \<Rightarrow> ''setle''
      | X86I_SETL \<Rightarrow> ''setl'' | X86I_SETGE \<Rightarrow> ''setge'' | X86I_SETG \<Rightarrow> ''setg''
      | X86I_AND \<Rightarrow> ''and'' | X86I_OR \<Rightarrow> ''or'' | X86I_XOR \<Rightarrow> ''xor''
      | X86I_NOT \<Rightarrow> ''not'' | X86I_NOP \<Rightarrow> ''nop'' | X86I_NEG \<Rightarrow> ''neg''
      | X86I_MOV \<Rightarrow> ''mov'' | X86I_ADD \<Rightarrow> ''add'' | X86I_SUB \<Rightarrow> ''sub''
      | X86I_MUL \<Rightarrow> ''mul'' | X86I_IMUL \<Rightarrow> ''imul'' | X86I_DIV \<Rightarrow> ''div''
      | X86I_IDIV \<Rightarrow> ''idiv'' | X86I_SHL \<Rightarrow> ''shl'' | X86I_SHR \<Rightarrow> ''shr''
      | X86I_SAR \<Rightarrow> ''sar'' | X86I_ROR \<Rightarrow> ''ror'' | X86I_TEST \<Rightarrow> ''test''
      | X86I_SETA \<Rightarrow> ''seta'' | X86I_SETNB \<Rightarrow> ''setnb'' | X86I_SETP \<Rightarrow> ''setp''
      | X86I_SETNP \<Rightarrow> ''setnp''
      | X86I_CVTTSD2SI \<Rightarrow> ''cvttsd2si'' | X86I_CVTTSS2SI \<Rightarrow> ''cvttss2si''
      | X86I_CVTSI2SS \<Rightarrow> ''cvtsi2ss'' | X86I_CVTSI2SD \<Rightarrow> ''cvtsi2sd''
      | X86I_MOVSS \<Rightarrow> ''movss'' | X86I_MOVSD \<Rightarrow> ''movsd''
      | X86I_ADDSS \<Rightarrow> ''addss'' | X86I_ADDSD \<Rightarrow> ''addsd''
      | X86I_SUBSS \<Rightarrow> ''subss'' | X86I_SUBSD \<Rightarrow> ''subsd''
      | X86I_MULSS \<Rightarrow> ''mulss'' | X86I_MULSD \<Rightarrow> ''mulsd''
      | X86I_DIVSS \<Rightarrow> ''divss'' | X86I_DIVSD \<Rightarrow> ''divsd''
      | X86I_CVTSD2SS \<Rightarrow> ''cvtsd2ss'' | X86I_CVTSS2SD \<Rightarrow> ''cvtss2sd''
      | X86I_COMISS \<Rightarrow> ''comiss'' | X86I_COMISD \<Rightarrow> ''comisd''
      | X86I_XORPD \<Rightarrow> ''xorpd'' | X86I_XORPS \<Rightarrow> ''xorps''
      | X86I_UCOMISS \<Rightarrow> ''ucomiss'' | X86I_UCOMISD \<Rightarrow> ''ucomisd''
      | X86I_PTEST \<Rightarrow> ''ptest'' | X86I_MOVZX \<Rightarrow> ''movzx'' | X86I_MOVSX \<Rightarrow> ''movsx''
      | X86I_STC \<Rightarrow> ''stc'' | X86I_REP_STOSB \<Rightarrow> ''rep stosb'' | X86I_SYSCALL \<Rightarrow> ''syscall''
      | _ \<Rightarrow> [])"

definition starts_with :: "string \<Rightarrow> string \<Rightarrow> bool" where
  "starts_with s p = (take (length p) s = p)"

text \<open>
  An instruction is emitted with the suffix \<open>c\<close> when its line is the indentation, the
  mnemonic, \<open>c\<close> and a blank before the operands; it is emitted without a suffix when the
  mnemonic is followed at once by the blank, or by the end of the line.
\<close>

definition emitted_with_suffix :: "register_name \<Rightarrow> x86_insn \<Rightarrow> char \<Rightarrow> bool" where
  "emitted_with_suffix rn insn c =
     (case x86_write_insn rn insn of
        None \<Rightarrow> False
      | Some out \<Rightarrow> starts_with out (INDENT @ x86_mnemonic (itype insn) @ [c] @ '' ''))"

definition emitted_without_suffix :: "register_name \<Rightarrow> x86_insn \<Rightarrow> bool" where
  "emitted_without_suffix rn insn =
     (case x86_write_insn rn insn of
        None \<Rightarrow> False
      | Some out \<Rightarrow>
          starts_with out (INDENT @ x86_mnemonic (itype insn) @ '' '')
          \<or> out = INDENT @ x86_mnemonic (itype insn) @ [CHR 0x0A])"

text \<open>The types the code prints with the suffix of the instruction's size.\<close>

definition suffixed_types :: "x86_insn_type set" where
  "suffixed_types =
     {X86I_MOV, X86I_ADD, X86I_SUB, X86I_MUL, X86I_IMUL, X86I_DIV, X86I_IDIV, X86I_NEG,
      X86I_NOT, X86I_AND, X86I_OR, X86I_XOR, X86I_SHL, X86I_SHR, X86I_SAR, X86I_ROR,
      X86I_CMP, X86I_TEST, X86I_LEA,
      X86I_CVTSI2SS, X86I_CVTSI2SD, X86I_CVTTSS2SI, X86I_CVTTSD2SI}"

text \<open>The types the code prints without a suffix.\<close>

definition unsuffixed_types :: "x86_insn_type set" where
  "unsuffixed_types =
     {X86I_MOVSS, X86I_MOVSD, X86I_ADDSS, X86I_ADDSD, X86I_SUBSS, X86I_SUBSD,
      X86I_MULSS, X86I_MULSD, X86I_DIVSS, X86I_DIVSD, X86I_CVTSD2SS, X86I_CVTSS2SD,
      X86I_COMISS, X86I_COMISD, X86I_UCOMISS, X86I_UCOMISD, X86I_XORPS, X86I_XORPD,
      X86I_PTEST, X86I_MOVSX, X86I_MOVZX,
      X86I_CALL, X86I_JMP, X86I_JE, X86I_JNE, X86I_JNB, X86I_JS,
      X86I_SETE, X86I_SETNE, X86I_SETLE, X86I_SETL, X86I_SETGE, X86I_SETG,
      X86I_SETA, X86I_SETNB, X86I_SETP, X86I_SETNP,
      X86I_LEAVE, X86I_RET, X86I_NOP, X86I_STC, X86I_SYSCALL, X86I_REP_STOSB}"

text \<open>The registers an instruction writes: the register operands in a written position.\<close>

definition written_registers :: "x86_insn \<Rightarrow> regid_t list" where
  "written_registers insn =
     concat (map (\<lambda>(ws, opi).
        (case opi of
           None \<Rightarrow> []
         | Some p \<Rightarrow>
             (case op_content p of
                X86OP_REGISTER r \<Rightarrow> (if (x86_insn_writes (itype insn) AND ws) \<noteq> 0 then [r] else [])
              | _ \<Rightarrow> [])))
        [(X86_INSN_WRITES_OP1, op1 insn), (X86_INSN_WRITES_OP2, op2 insn),
         (X86_INSN_WRITES_OP3, op3 insn)])"

definition nonvolatile_registers :: "regid_t list" where
  "nonvolatile_registers = [X86R_RBX, X86R_R12, X86R_R13, X86R_R14, X86R_R15]"

definition written_nonvolatiles :: "x86_insn list \<Rightarrow> regid_t set" where
  "written_nonvolatiles is = set (concat (map written_registers is)) \<inter> set nonvolatile_registers"

section \<open>The statements about the unsigned conversions, in the words of the specification\<close>


text \<open>
  The sequence for unsigned 64-bit to float or double as the specification words it:
  clear the destination, test the source, \<^verbatim>\<open>js\<close>; sign bit clear, one conversion;
  otherwise shift the integer right by 1, convert, add the limit constant.
\<close>

definition u642sse_sequence_as_specified ::
  "bool \<Rightarrow> x86_insn_size \<Rightarrow> x86_insn_size \<Rightarrow> string \<Rightarrow> x86_operand option
     \<Rightarrow> x86_operand option \<Rightarrow> string \<Rightarrow> string \<Rightarrow> x86_insn list" where
  "u642sse_sequence_as_specified is_float dsz ssz limit src dst gte after =
     [\<lparr>itype = (if is_float then X86I_XORPS else X86I_XORPD), isize = dsz,
       op1 = dst, op2 = dst, op3 = None\<rparr>,
      \<lparr>itype = X86I_TEST, isize = X86SZ_QWORD, op1 = src, op2 = src, op3 = None\<rparr>,
      \<lparr>itype = X86I_JS, isize = X86SZ_UNSET,
       op1 = Some \<lparr>op_content = X86OP_LABEL gte, op_size = X86SZ_UNSET\<rparr>, op2 = None, op3 = None\<rparr>,
      \<lparr>itype = (if is_float then X86I_CVTSI2SS else X86I_CVTSI2SD), isize = X86SZ_QWORD,
       op1 = src, op2 = dst, op3 = None\<rparr>,
      \<lparr>itype = X86I_JMP, isize = X86SZ_UNSET,
       op1 = Some \<lparr>op_content = X86OP_LABEL after, op_size = X86SZ_UNSET\<rparr>, op2 = None, op3 = None\<rparr>,
      \<lparr>itype = X86I_LABEL, isize = X86SZ_UNSET,
       op1 = Some \<lparr>op_content = X86OP_LABEL gte, op_size = X86SZ_UNSET\<rparr>, op2 = None, op3 = None\<rparr>,
      \<lparr>itype = X86I_SHR, isize = X86SZ_QWORD,
       op1 = Some \<lparr>op_content = X86OP_IMMEDIATE 1, op_size = X86SZ_UNSET\<rparr>, op2 = src, op3 = None\<rparr>,
      \<lparr>itype = (if is_float then X86I_CVTSI2SS else X86I_CVTSI2SD), isize = X86SZ_QWORD,
       op1 = src, op2 = dst, op3 = None\<rparr>,
      \<lparr>itype = (if is_float then X86I_ADDSS else X86I_ADDSD), isize = ssz,
       op1 = Some \<lparr>op_content = X86OP_LABEL_REF limit 0, op_size = X86SZ_UNSET\<rparr>, op2 = dst, op3 = None\<rparr>,
      \<lparr>itype = X86I_LABEL, isize = X86SZ_UNSET,
       op1 = Some \<lparr>op_content = X86OP_LABEL after, op_size = X86SZ_UNSET\<rparr>, op2 = None, op3 = None\<rparr>]"

text \<open>The same with the shift left by 1 that the code emits before the shift right.\<close>

definition u642sse_sequence ::
  "bool \<Rightarrow> x86_insn_size \<Rightarrow> x86_insn_size \<Rightarrow> string \<Rightarrow> x86_operand option
     \<Rightarrow> x86_operand option \<Rightarrow> string \<Rightarrow> string \<Rightarrow> x86_insn list" where
  "u642sse_sequence is_float dsz ssz limit src dst gte after =
     take 6 (u642sse_sequence_as_specified is_float dsz ssz limit src dst gte after)
     @ [\<lparr>itype = X86I_SHL, isize = X86SZ_QWORD,
         op1 = Some \<lparr>op_content = X86OP_IMMEDIATE 1, op_size = X86SZ_UNSET\<rparr>, op2 = src, op3 = None\<rparr>]
     @ drop 6 (u642sse_sequence_as_specified is_float dsz ssz limit src dst gte after)"

text \<open>
  The conditions under which the generator runs: the frame has grown downwards only and
  is far from the end of the \<^verbatim>\<open>long long\<close> range, the type of a symbol has a positive size
  (below 4 GiB) and a nonzero alignment that fits an \<^verbatim>\<open>int\<close>, and a limit symbol the file
  already holds carries the name it was created with.
\<close>

definition symbol_ok :: "(c_type \<Rightarrow> int) \<Rightarrow> (c_type \<Rightarrow> int) \<Rightarrow> symbol \<Rightarrow> bool" where
  "symbol_ok ts ta sy =
     (0 < ts (sy_type sy) \<and> ts (sy_type sy) \<le> 2 ^ 32
      \<and> ta (sy_type sy) \<noteq> 0 \<and> \<bar>ta (sy_type sy)\<bar> < 2 ^ 31)"

definition operand_ok ::
  "(c_type \<Rightarrow> int) \<Rightarrow> (c_type \<Rightarrow> int) \<Rightarrow> air_insn_operand \<Rightarrow> bool" where
  "operand_ok ts ta a =
     (case aop_content a of
        AOP_SYMBOL sy \<Rightarrow> symbol_ok ts ta sy
      | AOP_INDIRECT_SYMBOL sy off \<Rightarrow> symbol_ok ts ta sy
      | _ \<Rightarrow> True)"

definition frame_ok :: "frame \<Rightarrow> bool" where
  "frame_ok fr = (- (2 ^ 62) \<le> f_stackalloc fr \<and> f_stackalloc fr \<le> 0)"

definition limit_name :: "bool \<Rightarrow> string" where
  "limit_name is_float = (if is_float then ''__sse32_i64_limit'' else ''__sse64_i64_limit'')"

definition limit_data :: "bool \<Rightarrow> x86_asm_data" where
  "limit_data is_float =
     (if is_float
      then \<lparr>d_alignment = 4, d_label = ''__sse32_i64_limit'',
            d_data = DATA_FLOAT 9223372036854775808, d_length = 4, d_readonly = True\<rparr>
      else \<lparr>d_alignment = 8, d_label = ''__sse64_i64_limit'',
            d_data = DATA_DOUBLE 9223372036854775808, d_length = 8, d_readonly = True\<rparr>)"

definition limit_present :: "bool \<Rightarrow> x86_asm_file \<Rightarrow> bool" where
  "limit_present is_float file =
     ((if is_float then sse32_i64_limit file else sse64_i64_limit file) \<noteq> None)"

definition limits_named :: "x86_asm_file \<Rightarrow> bool" where
  "limits_named file =
     ((case sse32_i64_limit file of None \<Rightarrow> True | Some l \<Rightarrow> sy_name l = limit_name True)
      \<and> (case sse64_i64_limit file of None \<Rightarrow> True | Some l \<Rightarrow> sy_name l = limit_name False))"

definition gen_label :: "x86_asm_file \<Rightarrow> 64 word \<Rightarrow> string" where
  "gen_label file k = ''.LGEN'' @ string_of_nat (unat (next_constant_local_label file + k))"

section \<open>A model of the processor for the float-to-unsigned sequence\<close>


















definition example_type_size :: "c_type \<Rightarrow> int" where
  "example_type_size t = (if cclass t = CTC_FLOAT then 4 else 8)"

definition example_d2ui :: air_insn where
  "example_d2ui =
     \<lparr>a_ct = make_basic_type CTC_UNSIGNED_LONG_INT,
      ops0 = Some \<lparr>aop_content = AOP_REGISTER X86R_RAX,
                   aop_ct = make_basic_type CTC_UNSIGNED_LONG_INT\<rparr>,
      ops1 = Some \<lparr>aop_content = AOP_REGISTER X86R_XMM0,
                   aop_ct = make_basic_type CTC_DOUBLE\<rparr>,
      ops2 = None\<rparr>"

definition example_ui2d :: air_insn where
  "example_ui2d =
     \<lparr>a_ct = make_basic_type CTC_DOUBLE,
      ops0 = Some \<lparr>aop_content = AOP_REGISTER X86R_XMM0,
                   aop_ct = make_basic_type CTC_DOUBLE\<rparr>,
      ops1 = Some \<lparr>aop_content = AOP_REGISTER X86R_RAX,
                   aop_ct = make_basic_type CTC_UNSIGNED_LONG_INT\<rparr>,
      ops2 = None\<rparr>"

definition example_frame :: frame where
  "example_frame = \<lparr>f_stackalloc = 0, f_stack_offset = (\<lambda>k. 0)\<rparr>"

definition example_file :: x86_asm_file where
  "example_file =
     \<lparr>next_constant_local_label = 0, next_routine_id = 0, sse32_i64_limit = None,
      sse64_i64_limit = None, rodata = [], st = [], next_symbol_key = 0\<rparr>"

text \<open>
  A register-name table for the examples: the 64-bit and SSE names of the registers that
  occur in them.
\<close>

definition example_register_name :: register_name where
  "example_register_name r sz =
     (case r of
        X86R_RAX \<Rightarrow> ''rax'' | X86R_RBX \<Rightarrow> ''rbx'' | X86R_RCX \<Rightarrow> ''rcx''
      | X86R_XMM0 \<Rightarrow> ''xmm0'' | X86R_XMM1 \<Rightarrow> ''xmm1''
      | _ \<Rightarrow> ''(invalid register)'')"

definition example_lea :: x86_insn where
  "example_lea =
     \<lparr>itype = X86I_LEA, isize = X86SZ_QWORD,
      op1 = Some (make_operand_label_ref ''x'' 0),
      op2 = Some (make_operand_register X86R_RAX), op3 = None\<rparr>"

definition example_mov :: x86_insn where
  "example_mov =
     \<lparr>itype = X86I_MOV, isize = X86SZ_QWORD,
      op1 = Some (make_operand_register X86R_RAX),
      op2 = Some (make_operand_register X86R_RBX), op3 = None\<rparr>"

definition example_cvttsd2si :: x86_insn where
  "example_cvttsd2si =
     \<lparr>itype = X86I_CVTTSD2SI, isize = X86SZ_QWORD,
      op1 = Some (make_operand_register X86R_XMM0),
      op2 = Some (make_operand_register X86R_RAX), op3 = None\<rparr>"

definition example_movzx :: x86_insn where
  "example_movzx =
     \<lparr>itype = X86I_MOVZX, isize = X86SZ_DWORD,
      op1 = Some (make_operand_register X86R_RAX),
      op2 = Some (make_operand_register X86R_RBX), op3 = None\<rparr>"

definition example_movsd :: x86_insn where
  "example_movsd =
     \<lparr>itype = X86I_MOVSD, isize = X86SZ_QWORD,
      op1 = Some (make_operand_register X86R_XMM0),
      op2 = Some (make_operand_register X86R_XMM1), op3 = None\<rparr>"

text \<open>A routine whose only instruction is \<^verbatim>\<open>movq %rax, %rbx\<close>.\<close>

definition example_routine_rbx :: x86_asm_routine where
  "example_routine_rbx =
     \<lparr>routine_id = 1, global = True, label = ''f'', insns = [example_mov],
      used_nonvolatiles = 0, stackalloc = 0, uses_varargs = False\<rparr>"

definition example_below_int :: "c_type \<Rightarrow> bool" where
  "example_below_int t = False"

section \<open>Analyzer: diagnostics\<close>

definition MAX_ERROR_LEN :: nat where
  "MAX_ERROR_LEN = 512"

text \<open>The position of a syntax node, read by \<^verbatim>\<open>error_init\<close>.\<close>

record syntax_position =
  row :: nat
  col :: nat

record analysis_error =
  err_row :: nat
  err_col :: nat
  message :: string
  warning :: bool

text \<open>
  \<^verbatim>\<open>vsnprintf(buffer, n, fmt, args)\<close> of the C library, given the text that the format and
  its arguments expand to: the bytes it stores are at most \<open>n - 1\<close> characters of the text
  and a terminating NUL. A C string ends before its first NUL.
\<close>

definition vsnprintf :: "nat \<Rightarrow> string \<Rightarrow> string" where
  "vsnprintf n text = (if n = 0 then [] else take (n - 1) text @ [CHR 0x00])"

definition c_string :: "string \<Rightarrow> string" where
  "c_string bytes = takeWhile (\<lambda>c. c \<noteq> CHR 0x00) bytes"

text \<open>
  \<^verbatim>\<open>error_init\<close>; \<open>text\<close> is the expansion of \<^verbatim>\<open>fmt\<close> with the variable arguments. The
  message is the C string in the buffer of \<^verbatim>\<open>MAX_ERROR_LEN\<close> bytes. A fresh error has row
  and column 0 (\<^verbatim>\<open>calloc\<close>) unless a syntax node is given.
\<close>

definition error_init :: "syntax_position option \<Rightarrow> bool \<Rightarrow> string \<Rightarrow> analysis_error" where
  "error_init syn warn text =
     \<lparr>err_row = (case syn of None \<Rightarrow> 0 | Some p \<Rightarrow> row p),
      err_col = (case syn of None \<Rightarrow> 0 | Some p \<Rightarrow> col p),
      message = c_string (vsnprintf MAX_ERROR_LEN text),
      warning = warn\<rparr>"

text \<open>\<^verbatim>\<open>error_list_add\<close> walks to the end of the list and links the error there.\<close>

definition error_list_add :: "analysis_error list \<Rightarrow> analysis_error \<Rightarrow> analysis_error list" where
  "error_list_add errors err = errors @ [err]"

definition error_list_size :: "analysis_error list \<Rightarrow> bool \<Rightarrow> nat" where
  "error_list_size errors include_warnings =
     length (filter (\<lambda>e. include_warnings \<or> \<not> warning e) errors)"

text \<open>
  Modelled from the C standard: the expansion of a \<^verbatim>\<open>printf\<close> format whose conversions
  are single letters (\<^verbatim>\<open>%s\<close>, \<^verbatim>\<open>%u\<close>, \<^verbatim>\<open>%d\<close>) and \<^verbatim>\<open>%%\<close>; each conversion takes the next
  argument.
\<close>

datatype fmt_arg = ARG_STRING string | ARG_UNSIGNED nat | ARG_INT int

definition format_arg :: "fmt_arg \<Rightarrow> string" where
  "format_arg a =
     (case a of ARG_STRING s \<Rightarrow> s | ARG_UNSIGNED n \<Rightarrow> string_of_nat n
      | ARG_INT i \<Rightarrow> string_of_int i)"

fun vformat :: "string \<Rightarrow> fmt_arg list \<Rightarrow> string" where
  "vformat [] args = []"
| "vformat [c] args = [c]"
| "vformat (c # d # cs) args =
     (if c = CHR ''%'' then
        (if d = CHR ''%'' then CHR ''%'' # vformat cs args
         else (case args of
                 [] \<Rightarrow> vformat cs args
               | a # as \<Rightarrow> format_arg a @ vformat cs as))
      else c # vformat (d # cs) args)"

text \<open>The macros \<^verbatim>\<open>ADD_ERROR\<close> and \<^verbatim>\<open>ADD_WARNING\<close> on the error list of the traverser.\<close>

definition ADD_ERROR ::
  "analysis_error list \<Rightarrow> syntax_position option \<Rightarrow> string \<Rightarrow> fmt_arg list
     \<Rightarrow> analysis_error list" where
  "ADD_ERROR errors syn fmt args = error_list_add errors (error_init syn False (vformat fmt args))"

definition ADD_WARNING ::
  "analysis_error list \<Rightarrow> syntax_position option \<Rightarrow> string \<Rightarrow> fmt_arg list
     \<Rightarrow> analysis_error list" where
  "ADD_WARNING errors syn fmt args = error_list_add errors (error_init syn True (vformat fmt args))"

section \<open>Analyzer: assignability\<close>

text \<open>
  The expressions \<^verbatim>\<open>can_assign\<close> looks into: a cast with its type name, or any other
  expression (identified by a number). The syntax of a type name is kept as far as
  \<^verbatim>\<open>syntax_is_null_ptr_constant\<close> inspects it; a vector that may be \<^verbatim>\<open>NULL\<close> is a list option.
\<close>

datatype basic_type_specifier = BTS_VOID | BTS_OTHER

datatype specifier_qualifier =
  SC_BASIC_TYPE_SPECIFIER basic_type_specifier | SC_OTHER_SPECIFIER_QUALIFIER

datatype type_qualifier = TQ_CONST | TQ_VOLATILE | TQ_RESTRICT

datatype declarator_syntax =
    SC_ABSTRACT_DECLARATOR (abdeclr_pointers: "type_qualifier list option list option")
  | SC_OTHER_DECLARATOR

record type_name =
  tn_specifier_qualifier_list :: "specifier_qualifier list option"
  tn_declarator :: "declarator_syntax option"

datatype syntax_expr =
    SC_CAST_EXPRESSION (caexpr_type_name: type_name) (caexpr_operand: syntax_expr)
  | SC_EXPRESSION nat



text \<open>
  The predicates of the type system (\<^verbatim>\<open>type.c\<close>, outside the sources) that the analyzer
  calls, as the fields of a record given to the embedded functions.
\<close>

record type_system =
  type_is_arithmetic :: "c_type \<Rightarrow> bool"
  type_is_integer :: "c_type \<Rightarrow> bool"
  type_is_scalar :: "c_type \<Rightarrow> bool"
  type_is_character :: "c_type \<Rightarrow> bool"
  type_is_object_type :: "c_type \<Rightarrow> bool"
  type_is_complete :: "c_type \<Rightarrow> bool"
  type_is_vla :: "c_type \<Rightarrow> bool"
  type_is_compatible :: "c_type \<Rightarrow> c_type \<Rightarrow> bool"
  type_is_compatible_ignore_qualifiers :: "c_type \<Rightarrow> c_type \<Rightarrow> bool"
  type_size :: "c_type \<Rightarrow> int"
  type_alignment :: "c_type \<Rightarrow> int"
  member_info :: "c_type \<Rightarrow> string \<Rightarrow> int \<times> int"


subsection \<open>The six conditions in the words of the specification\<close>










subsection \<open>A type system for the examples\<close>

















section \<open>Analyzer: case labels of a switch statement\<close>

text \<open>
  Statements, as far as the switch analysis looks at them: a labeled statement (a named
  label has \<^verbatim>\<open>lstmt_id\<close>, a case label has \<^verbatim>\<open>lstmt_case_expression\<close>, a default label has
  neither), a switch statement with the position and type of its controlling expression,
  and any other
  statement with its sub-statements in source order. \<open>lstmt_uid\<close> and \<open>swstmt_uid\<close> stand
  for the identity of the node (its address).
\<close>

datatype stmt =
    SC_LABELED_STATEMENT (lstmt_uid: nat) (lstmt_pos: syntax_position)
      (lstmt_id: "string option") (lstmt_case_expression: "syntax_expr option")
      (lstmt_stmt: stmt)
  | SC_SWITCH_STATEMENT (swstmt_uid: nat) (swstmt_pos: syntax_position)
      (swstmt_condition_pos: syntax_position) (swstmt_condition_ctype: c_type)
      (swstmt_body: stmt)
  | SC_STATEMENT "stmt list"

text \<open>An entry of \<^verbatim>\<open>swstmt_cases\<close>: the labeled statement, its row and its \<^verbatim>\<open>lstmt_value\<close>.\<close>

record recorded_case =
  case_uid :: nat
  case_row :: nat
  lstmt_value :: "64 word"

record switch_state =
  swstmt_cases :: "recorded_case list"
  swstmt_default :: "nat option"
  sw_errors :: "analysis_error list"

text \<open>The \<^verbatim>\<open>VECTOR_FOR\<close> loop over the recorded cases: one error per recorded equal value.\<close>

definition report_same_value ::
  "syntax_position \<Rightarrow> 64 word \<Rightarrow> recorded_case list \<Rightarrow> analysis_error list
     \<Rightarrow> analysis_error list" where
  "report_same_value pos v cases errs =
     fold (\<lambda>lstmt es.
             if lstmt_value lstmt = v
             then ADD_ERROR es (Some pos)
                    ''case statement on line %u has expression with the same value''
                    [ARG_UNSIGNED (case_row lstmt)]
             else es)
       cases errs"

text \<open>
  \<^verbatim>\<open>swbody_labeled_statement_after\<close>. \<open>swstmt\<close> is the switch being analyzed (\<^verbatim>\<open>trav->tlu\<close>),
  \<open>enc\<close> the nearest switch statement enclosing the label (\<^verbatim>\<open>syntax_get_enclosing\<close>).
  \<open>ce\<close> is \<^verbatim>\<open>constexpr_evaluate_integer\<close>; \<open>conv t v\<close> is the value \<open>v\<close> after
  \<^verbatim>\<open>constexpr_convert\<close> to the promoted type of the controlling type \<open>t\<close>, read by
  \<^verbatim>\<open>constexpr_as_u64\<close>.
\<close>

definition swbody_labeled_statement_after ::
  "(c_type \<Rightarrow> int \<Rightarrow> 64 word) \<Rightarrow> (syntax_expr \<Rightarrow> int option) \<Rightarrow> nat \<Rightarrow> c_type \<Rightarrow> nat option
     \<Rightarrow> nat \<Rightarrow> syntax_position \<Rightarrow> string option \<Rightarrow> syntax_expr option
     \<Rightarrow> switch_state \<Rightarrow> switch_state" where
  "swbody_labeled_statement_after conv ce swstmt cond_ct enc uid pos lid cexpr state =
     (if lid \<noteq> None then state
      else if enc \<noteq> Some swstmt then state
      else
        (case cexpr of
           Some e \<Rightarrow>
             (case ce e of
                None \<Rightarrow>
                  state\<lparr>sw_errors := ADD_ERROR (sw_errors state) (Some pos)
                                  ''case statement must have a constant expression'' []\<rparr>
              | Some v \<Rightarrow>
                  state\<lparr>sw_errors := report_same_value pos (conv cond_ct v) (swstmt_cases state)
                                  (sw_errors state),
                     swstmt_cases := swstmt_cases state @
                       [\<lparr>case_uid = uid, case_row = row pos,
                         lstmt_value = conv cond_ct v\<rparr>]\<rparr>)
         | None \<Rightarrow>
             (if swstmt_default state \<noteq> None then
                state\<lparr>sw_errors := ADD_ERROR (sw_errors state) (Some pos)
                  ''multiple default cases are not allowed within a switch statement'' []\<rparr>
              else state\<lparr>swstmt_default := Some uid\<rparr>)))"

text \<open>
  Modelled from the spec: \<^verbatim>\<open>traverse\<close> is the generic traversal of the syntax tree,
  outside the sources ("a generic pre/post traversal over the syntax tree dispatches to
  per-node handlers"). Started at the switch statement with only the after-handler of
  labeled statements installed, it visits the sub-statements in source order and calls
  the handler on a labeled statement after its sub-statement. \<open>enc\<close> is the nearest
  switch statement around the node visited.
\<close>

fun swbody_traverse ::
  "(c_type \<Rightarrow> int \<Rightarrow> 64 word) \<Rightarrow> (syntax_expr \<Rightarrow> int option) \<Rightarrow> nat \<Rightarrow> c_type \<Rightarrow> nat option
     \<Rightarrow> stmt \<Rightarrow> switch_state \<Rightarrow> switch_state" where
  "swbody_traverse conv ce swstmt cond_ct enc (SC_LABELED_STATEMENT uid pos lid cexpr s) state =
     swbody_labeled_statement_after conv ce swstmt cond_ct enc uid pos lid cexpr
       (swbody_traverse conv ce swstmt cond_ct enc s state)"
| "swbody_traverse conv ce swstmt cond_ct enc (SC_SWITCH_STATEMENT uid pos cpos ct body) state =
     swbody_traverse conv ce swstmt cond_ct (Some uid) body state"
| "swbody_traverse conv ce swstmt cond_ct enc (SC_STATEMENT ss) state =
     fold (swbody_traverse conv ce swstmt cond_ct enc) ss state"

text \<open>
  \<^verbatim>\<open>analyze_switch_statement_after\<close> on a switch statement: the list of errors after it,
  with the recorded cases and the default label. A node that is not a switch statement
  is left alone.
\<close>

definition analyze_switch_statement_after ::
  "type_system \<Rightarrow> (c_type \<Rightarrow> int \<Rightarrow> 64 word) \<Rightarrow> (syntax_expr \<Rightarrow> int option) \<Rightarrow> stmt
     \<Rightarrow> analysis_error list \<Rightarrow> switch_state" where
  "analyze_switch_statement_after ty conv ce syn errs =
     (case syn of
        SC_SWITCH_STATEMENT uid pos cpos ct body \<Rightarrow>
          (let errs1 = ADD_WARNING errs (Some pos)
                 ''switch statements are not checked for identifiers with variably-modified types, use with your own risk''
                 []
           in
             if \<not> type_is_integer ty ct then
               \<lparr>swstmt_cases = [], swstmt_default = None,
                sw_errors = ADD_ERROR errs1 (Some cpos)
                  ''controlling expression of a switch statement must be of integer type'' []\<rparr>
             else
               swbody_traverse conv ce uid ct None syn
                 \<lparr>swstmt_cases = [], swstmt_default = None, sw_errors = errs1\<rparr>)
      | _ \<Rightarrow> \<lparr>swstmt_cases = [], swstmt_default = None, sw_errors = errs\<rparr>)"

subsection \<open>The statements about case labels, in the words of the specification\<close>

text \<open>
  The labeled statements of a switch body whose nearest enclosing switch is the switch
  itself, in the order of the traversal: those inside an inner switch are left out.
\<close>

fun own_labels :: "stmt \<Rightarrow> (nat \<times> syntax_position \<times> string option \<times> syntax_expr option) list"
where
  "own_labels (SC_LABELED_STATEMENT uid pos lid cexpr s) = own_labels s @ [(uid, pos, lid, cexpr)]"
| "own_labels (SC_SWITCH_STATEMENT uid pos cpos ct body) = []"
| "own_labels (SC_STATEMENT ss) = concat (map own_labels ss)"

fun switch_uids :: "stmt \<Rightarrow> nat set" where
  "switch_uids (SC_LABELED_STATEMENT uid pos lid cexpr s) = switch_uids s"
| "switch_uids (SC_SWITCH_STATEMENT uid pos cpos ct body) = insert uid (switch_uids body)"
| "switch_uids (SC_STATEMENT ss) = (\<Union>s \<in> set ss. switch_uids s)"

definition own_case_uids :: "stmt \<Rightarrow> nat set" where
  "own_case_uids body =
     {uid. \<exists>pos cexpr. (uid, pos, None, Some cexpr) \<in> set (own_labels body)}"

definition apply_label ::
  "(c_type \<Rightarrow> int \<Rightarrow> 64 word) \<Rightarrow> (syntax_expr \<Rightarrow> int option) \<Rightarrow> nat \<Rightarrow> c_type
     \<Rightarrow> nat \<times> syntax_position \<times> string option \<times> syntax_expr option
     \<Rightarrow> switch_state \<Rightarrow> switch_state" where
  "apply_label conv ce swstmt cond_ct l state =
     (case l of (uid, pos, lid, cexpr) \<Rightarrow>
        swbody_labeled_statement_after conv ce swstmt cond_ct (Some swstmt) uid pos lid cexpr state)"

text \<open>The labeled statements that lie inside an inner switch statement.\<close>

fun label_uid_list :: "stmt \<Rightarrow> nat list" where
  "label_uid_list (SC_LABELED_STATEMENT uid pos lid cexpr s) = uid # label_uid_list s"
| "label_uid_list (SC_SWITCH_STATEMENT uid pos cpos ct body) = label_uid_list body"
| "label_uid_list (SC_STATEMENT ss) = concat (map label_uid_list ss)"

fun inner_label_uids :: "stmt \<Rightarrow> nat set" where
  "inner_label_uids (SC_LABELED_STATEMENT uid pos lid cexpr s) = inner_label_uids s"
| "inner_label_uids (SC_SWITCH_STATEMENT uid pos cpos ct body) = set (label_uid_list body)"
| "inner_label_uids (SC_STATEMENT ss) = (\<Union>s \<in> set ss. inner_label_uids s)"

text \<open>
  The case values and default labels (\<^term>\<open>None\<close>) among a list of labeled statements: a
  named label and a case label without a constant value contribute nothing.
\<close>

definition label_values ::
  "(c_type \<Rightarrow> int \<Rightarrow> 64 word) \<Rightarrow> (syntax_expr \<Rightarrow> int option) \<Rightarrow> c_type
     \<Rightarrow> (nat \<times> syntax_position \<times> string option \<times> syntax_expr option) list
     \<Rightarrow> 64 word option list" where
  "label_values conv ce t ls =
     concat (map (\<lambda>l. case l of (uid, pos, lid, cexpr) \<Rightarrow>
                    (if lid \<noteq> None then []
                     else (case cexpr of
                             None \<Rightarrow> [None]
                           | Some e \<Rightarrow> (case ce e of None \<Rightarrow> [] | Some v \<Rightarrow> [Some (conv t v)]))))
             ls)"

text \<open>
  The number of diagnostics as the specification counts them: one for each case label
  whose value has been seen before, one for each default label beyond the first. The
  argument lists the case values and the default labels (\<^term>\<open>None\<close>) in the order visited.
\<close>

fun diagnostics_as_specified :: "64 word list \<Rightarrow> bool \<Rightarrow> 64 word option list \<Rightarrow> nat" where
  "diagnostics_as_specified seen has_default [] = 0"
| "diagnostics_as_specified seen has_default (Some v # ls) =
     (if v \<in> set seen then 1 else 0) + diagnostics_as_specified (seen @ [v]) has_default ls"
| "diagnostics_as_specified seen has_default (None # ls) =
     (if has_default then 1 else 0) + diagnostics_as_specified seen True ls"

text \<open>\<^verbatim>\<open>switch (i) { case 1: case 1: case 1: ; }\<close> with \<^verbatim>\<open>i\<close> of type \<^verbatim>\<open>int\<close>, on row 1.\<close>

definition example_pos :: syntax_position where
  "example_pos = \<lparr>row = 1, col = 1\<rparr>"

definition example_triple_switch :: stmt where
  "example_triple_switch =
     SC_SWITCH_STATEMENT 0 example_pos example_pos (Basic CTC_INT 0)
       (SC_STATEMENT
          [SC_LABELED_STATEMENT 1 example_pos None (Some (SC_EXPRESSION 1))
             (SC_LABELED_STATEMENT 2 example_pos None (Some (SC_EXPRESSION 1))
                (SC_LABELED_STATEMENT 3 example_pos None (Some (SC_EXPRESSION 1))
                   (SC_STATEMENT [])))])"

text \<open>\<^verbatim>\<open>switch (i) { case 1: switch (j) { case 1: ; } }\<close>.\<close>

definition example_nested_switch :: stmt where
  "example_nested_switch =
     SC_SWITCH_STATEMENT 0 example_pos example_pos (Basic CTC_INT 0)
       (SC_STATEMENT
          [SC_LABELED_STATEMENT 1 example_pos None (Some (SC_EXPRESSION 1))
             (SC_SWITCH_STATEMENT 2 example_pos example_pos (Basic CTC_INT 0)
                (SC_STATEMENT
                   [SC_LABELED_STATEMENT 3 example_pos None (Some (SC_EXPRESSION 1))
                      (SC_STATEMENT [])]))])"

definition example_conv :: "c_type \<Rightarrow> int \<Rightarrow> 64 word" where
  "example_conv t v = word_of_int v"

(*PROPERTIES*)
chapter \<open>Properties\<close>

section \<open>Backend\<close>

lemmas write_insn_defs =
  x86_write_insn_def x86_write_insn_body_def USUAL_2OP_def USUAL_1OP_def USUAL_START_def
  insn_suffix_def x86_insn_uses_suffix_def INDENT_def fixed_1op_def shift_2op_def

lemmas operand_defs =
  x86_write_operand_def x86_write_register_def make_operand_label_ref_def
  make_operand_register_def make_operand_label_def make_operand_immediate_def
  make_operand_deref_register_def make_basic_x86_operand_def

lemmas nonvolatile_defs =
  x86_find_used_nonvolatiles_def scan_insn_def scan_operand_def is_register_operand_def
  mark_nonvolatile_def operand_reg_field_def x86_insn_writes_def
  X86_INSN_WRITES_OP1_def X86_INSN_WRITES_OP2_def X86_INSN_WRITES_OP3_def
  USED_NONVOLATILES_RBX_def USED_NONVOLATILES_R12_def USED_NONVOLATILES_R13_def
  USED_NONVOLATILES_R14_def USED_NONVOLATILES_R15_def

text \<open>The pops are the pushes in reverse order, whatever the mask holds.\<close>

lemma pop_indices_rev_push_indices:
  "flagged used (rev is) = rev (flagged used is)"
  by (simp add: flagged_def rev_filter)

text \<open>
  C1. The claim: the callee-saved registers pushed by the prologue are those popped by the
  epilogue and are exactly the registers among rbx, r12, ..., r15 that some instruction
  writes. The scan does not do this. It tests whether operand \<open>i\<close> is a written register
  operand but then switches on \<^verbatim>\<open>insn->op1->reg\<close>, the register of the first operand. For
  the routine whose one instruction is \<^verbatim>\<open>movq %rax, %rbx\<close> the written register rbx is
  not recorded: the mask stays 0, and neither a push nor a pop of rbx is printed.
\<close>

theorem x86_find_used_nonvolatiles_misses_rbx:
  "X86R_RBX \<in> written_nonvolatiles (insns example_routine_rbx)
   \<and> map_option used_nonvolatiles (x86_find_used_nonvolatiles lay example_routine_rbx) = Some 0
   \<and> map_option x86_write_routine_push_nonvolatiles
        (x86_find_used_nonvolatiles lay example_routine_rbx) = Some []
   \<and> map_option x86_write_routine_pop_nonvolatiles
        (x86_find_used_nonvolatiles lay example_routine_rbx) = Some []"
  by (simp add: example_routine_rbx_def example_mov_def written_nonvolatiles_def
      written_registers_def nonvolatile_registers_def make_operand_register_def
      make_basic_x86_operand_def nonvolatile_defs
      x86_write_routine_push_nonvolatiles_def x86_write_routine_pop_nonvolatiles_def
      flagged_def NONVOLATILE_FLAGS_def)

text \<open>
  C2. The claim: the register-save block of a variadic routine stores each of rdi, rsi,
  rdx, rcx, r8, r9 into its own 8-byte slot. The block printed by
  \<^verbatim>\<open>x86_write_varargs_setup\<close> stores r8 and then rcx to the same slot \<^verbatim>\<open>-16(%rbp)\<close>, and
  stores rdx twice (to -24 and to -32): the second and third lines it prints target one
  slot, and the displacements of the seven integer stores are not distinct.
\<close>

theorem x86_write_varargs_setup_r8_rcx_share_slot:
  "x86_write_varargs_setup ! 1 = ''    movq %r8, -16(%rbp)'' @ [CHR 0x0A]
   \<and> x86_write_varargs_setup ! 2 = ''    movq %rcx, -16(%rbp)'' @ [CHR 0x0A]
   \<and> x86_write_varargs_setup ! 3 = ''    movq %rdx, -24(%rbp)'' @ [CHR 0x0A]
   \<and> x86_write_varargs_setup ! 4 = ''    movq %rdx, -32(%rbp)'' @ [CHR 0x0A]
   \<and> \<not> distinct (map (\<lambda>s. snd (snd s)) (take 7 varargs_stores))"
  by (simp add: x86_write_varargs_setup_def varargs_stores_def store_line_def
      string_of_int_def string_of_nat.simps digit_char_def)

text \<open>
  C4, as the specification states it, fails in three places. \<^verbatim>\<open>lea x(%rip), %rax\<close> of quad
  size is printed as \<^verbatim>\<open>leaq\<close>, not without a suffix. The SSE conversion
  \<^verbatim>\<open>cvttsd2si %xmm0, %rax\<close> of quad size is printed as \<^verbatim>\<open>cvttsd2siq\<close>. The move
  \<^verbatim>\<open>movzx\<close> is printed without a suffix.
\<close>

theorem x86_write_insn_lea_counterexample:
  "x86_write_insn example_register_name example_lea
     = Some (''    leaq x(%rip), %rax'' @ [CHR 0x0A])
   \<and> \<not> emitted_without_suffix example_register_name example_lea
   \<and> x86_write_insn example_register_name example_cvttsd2si
     = Some (''    cvttsd2siq %xmm0, %rax'' @ [CHR 0x0A])
   \<and> \<not> emitted_without_suffix example_register_name example_cvttsd2si
   \<and> x86_write_insn example_register_name example_movzx
     = Some (''    movzx %rax, %rbx'' @ [CHR 0x0A])
   \<and> \<not> emitted_with_suffix example_register_name example_movzx
         (x86_operand_size_character (isize example_movzx))"
  by (simp add: example_lea_def example_cvttsd2si_def example_movzx_def
      example_register_name_def emitted_without_suffix_def emitted_with_suffix_def
      starts_with_def x86_mnemonic_def write_insn_defs operand_defs
      x86_operand_size_character_def)

text \<open>
  C4, amended. The integer arithmetic, logic and move mnemonics (\<^verbatim>\<open>mov\<close>, \<^verbatim>\<open>add\<close>,
  \<^verbatim>\<open>sub\<close>, \<^verbatim>\<open>mul\<close>, \<^verbatim>\<open>imul\<close>, \<^verbatim>\<open>div\<close>, \<^verbatim>\<open>idiv\<close>, \<^verbatim>\<open>neg\<close>, \<^verbatim>\<open>not\<close>, \<^verbatim>\<open>and\<close>, \<^verbatim>\<open>or\<close>,
  \<^verbatim>\<open>xor\<close>, \<^verbatim>\<open>shl\<close>, \<^verbatim>\<open>shr\<close>, \<^verbatim>\<open>sar\<close>, \<^verbatim>\<open>ror\<close>, \<^verbatim>\<open>cmp\<close>, \<^verbatim>\<open>test\<close>), and also \<^verbatim>\<open>lea\<close> and
  the four conversions between SSE and integer registers (\<^verbatim>\<open>cvtsi2ss\<close>, \<^verbatim>\<open>cvtsi2sd\<close>,
  \<^verbatim>\<open>cvttss2si\<close>, \<^verbatim>\<open>cvttsd2si\<close>), are printed with the suffix chosen from the instruction's
  operand size: b for byte, w for word, l for dword, q for qword. The other SSE
  instructions, \<^verbatim>\<open>movsx\<close>, \<^verbatim>\<open>movzx\<close>, the jumps, \<^verbatim>\<open>call\<close>, the \<^verbatim>\<open>setcc\<close> forms, \<^verbatim>\<open>leave\<close>,
  \<^verbatim>\<open>ret\<close>, \<^verbatim>\<open>nop\<close>, \<^verbatim>\<open>stc\<close>, \<^verbatim>\<open>rep stosb\<close> and \<^verbatim>\<open>syscall\<close> are printed without a suffix.
\<close>

theorem x86_write_insn_suffixing:
  "(itype insn \<in> suffixed_types \<longrightarrow>
      emitted_with_suffix rn insn (x86_operand_size_character (isize insn)))
   \<and> (itype insn \<in> unsuffixed_types \<longrightarrow> emitted_without_suffix rn insn)
   \<and> x86_operand_size_character X86SZ_BYTE = CHR ''b''
   \<and> x86_operand_size_character X86SZ_WORD = CHR ''w''
   \<and> x86_operand_size_character X86SZ_DWORD = CHR ''l''
   \<and> x86_operand_size_character X86SZ_QWORD = CHR ''q''"
proof (intro conjI impI)
  assume "itype insn \<in> suffixed_types"
  then show "emitted_with_suffix rn insn (x86_operand_size_character (isize insn))"
    by (cases "itype insn")
       (simp_all add: suffixed_types_def emitted_with_suffix_def write_insn_defs
          starts_with_def x86_mnemonic_def)
next
  assume "itype insn \<in> unsuffixed_types"
  then show "emitted_without_suffix rn insn"
    by (cases "itype insn")
       (simp_all add: unsuffixed_types_def emitted_without_suffix_def write_insn_defs
          starts_with_def x86_mnemonic_def)
qed (simp_all add: x86_operand_size_character_def)

theorem x86_write_insn_suffixing_witness:
  "itype example_mov \<in> suffixed_types
   \<and> emitted_with_suffix example_register_name example_mov CHR ''q''
   \<and> itype example_movsd \<in> unsuffixed_types
   \<and> emitted_without_suffix example_register_name example_movsd"
  using x86_write_insn_suffixing [of example_mov example_register_name]
        x86_write_insn_suffixing [of example_movsd example_register_name]
  by (simp add: example_mov_def example_movsd_def suffixed_types_def unsuffixed_types_def
      x86_operand_size_character_def)

section \<open>Backend: the unsigned conversions\<close>

text \<open>Operand translation only lowers the frame, and repeating it changes nothing.\<close>

lemma llong_id: "- (2 ^ 63) \<le> x \<Longrightarrow> x < 2 ^ 63 \<Longrightarrow> llong x = x"
  unfolding llong_def by (rule signed_take_bit_int_eq_self) simp_all

lemma abs_int_small: "\<bar>x\<bar> < 2 ^ 31 \<Longrightarrow> abs_int x = \<bar>x\<bar>"
proof -
  assume a: "\<bar>x\<bar> < 2 ^ 31"
  then have "signed_take_bit 31 x = x"
    by (intro signed_take_bit_int_eq_self) auto
  with a show ?thesis by (auto simp: abs_int_def Let_def)
qed

lemma c_rem_bound: "b \<noteq> 0 \<Longrightarrow> \<bar>c_rem a b\<bar> < \<bar>b\<bar>"
proof -
  assume "b \<noteq> 0"
  then have "\<bar>a\<bar> mod \<bar>b\<bar> < \<bar>b\<bar>" by simp
  moreover have "0 \<le> \<bar>a\<bar> mod \<bar>b\<bar>" using \<open>b \<noteq> 0\<close> by simp
  ultimately show ?thesis
    by (cases "a < 0"; cases "a = 0") (simp_all add: c_rem_def abs_mult)
qed

lemma next_stack_offset_bounds:
  assumes lo: "- (2 ^ 63) + 2 ^ 34 \<le> lo" "lo \<le> f_stackalloc fr" "f_stackalloc fr \<le> 0"
    and ok: "symbol_ok ts ta sy"
  shows "lo - 2 ^ 33 \<le> next_stack_offset ts ta fr sy"
    and "next_stack_offset ts ta fr sy < f_stackalloc fr"
proof -
  let ?s0 = "f_stackalloc fr - ts (sy_type sy)"
  from ok have sz: "0 < ts (sy_type sy)" "ts (sy_type sy) \<le> 2 ^ 32"
    and al: "ta (sy_type sy) \<noteq> 0" "\<bar>ta (sy_type sy)\<bar> < 2 ^ 31"
    by (simp_all add: symbol_ok_def)
  have s0: "llong ?s0 = ?s0"
    using lo sz by (intro llong_id) simp_all
  let ?r = "c_rem ?s0 (ta (sy_type sy))"
  have r: "\<bar>?r\<bar> < 2 ^ 31"
    using c_rem_bound [OF al(1), of ?s0] al(2) by simp
  have a: "abs_int ?r = \<bar>?r\<bar>" by (rule abs_int_small [OF r])
  have s1: "llong (?s0 - \<bar>?r\<bar>) = ?s0 - \<bar>?r\<bar>"
    using lo sz r by (intro llong_id) simp_all
  have eq: "next_stack_offset ts ta fr sy = ?s0 - \<bar>?r\<bar>"
    by (simp add: next_stack_offset_def Let_def s0 a s1)
  show "lo - 2 ^ 33 \<le> next_stack_offset ts ta fr sy"
    unfolding eq using lo sz r by simp
  show "next_stack_offset ts ta fr sy < f_stackalloc fr"
    unfolding eq using sz by simp
qed

lemma xl_stackalloc:
  assumes lo: "- (2 ^ 63) + 2 ^ 34 \<le> lo" "lo \<le> f_stackalloc fr" "f_stackalloc fr \<le> 0"
    and ok: "operand_ok ts ta a"
  shows "lo - 2 ^ 33 \<le> f_stackalloc (snd (air_operand_to_x86_operand ts ta a fr))"
    and "f_stackalloc (snd (air_operand_to_x86_operand ts ta a fr)) \<le> 0"
  using assms next_stack_offset_bounds [OF lo]
  by (cases "aop_content a"; fastforce simp: air_operand_to_x86_operand_def operand_ok_def Let_def)+

lemma xl_idem:
  assumes lo: "- (2 ^ 63) + 2 ^ 34 \<le> lo" "lo \<le> f_stackalloc fr" "f_stackalloc fr \<le> 0"
    and ok: "operand_ok ts ta a"
  shows "air_operand_to_x86_operand ts ta a (snd (air_operand_to_x86_operand ts ta a fr))
         = air_operand_to_x86_operand ts ta a fr"
  using assms next_stack_offset_bounds [OF lo]
  by (cases "aop_content a")
     (fastforce simp: air_operand_to_x86_operand_def operand_ok_def Let_def)+

lemma frame_upd_neq:
  "s \<noteq> f_stackalloc fr \<Longrightarrow> fr\<lparr>f_stackalloc := s, f_stack_offset := g\<rparr> \<noteq> fr"
  by (cases fr) auto

lemma xl_settled_placed:
  assumes lo: "- (2 ^ 63) + 2 ^ 34 \<le> lo" "lo \<le> f_stackalloc fr" "f_stackalloc fr \<le> 0"
    and a: "air_operand_to_x86_operand ts ta a fr = (x, fr)" "operand_ok ts ta a"
    and c: "aop_content a = AOP_SYMBOL sy \<or> aop_content a = AOP_INDIRECT_SYMBOL sy off"
    and sd: "sy_sd sy \<noteq> SD_STATIC"
  shows "f_stack_offset fr (sy_key sy) \<noteq> 0"
proof
  assume z: "f_stack_offset fr (sy_key sy) = 0"
  from a(2) c have ok: "symbol_ok ts ta sy"
    by (auto simp: operand_ok_def)
  have "next_stack_offset ts ta fr sy \<noteq> f_stackalloc fr"
    using next_stack_offset_bounds(2) [OF lo ok] by simp
  from frame_upd_neq [OF this] a(1) c sd z ok show False
    by (auto simp: air_operand_to_x86_operand_def Let_def symbol_ok_def)
qed

lemma xl_settled_after:
  assumes lo: "- (2 ^ 63) + 2 ^ 34 \<le> lo" "lo \<le> f_stackalloc fr" "f_stackalloc fr \<le> 0"
    and a: "air_operand_to_x86_operand ts ta a fr = (x, fr)" "operand_ok ts ta a"
  shows "air_operand_to_x86_operand ts ta a (snd (air_operand_to_x86_operand ts ta b fr))
           = (x, snd (air_operand_to_x86_operand ts ta b fr))"
proof (cases "\<exists>sy off. (aop_content a = AOP_SYMBOL sy \<or> aop_content a = AOP_INDIRECT_SYMBOL sy off)
                \<and> sy_sd sy \<noteq> SD_STATIC")
  case False
  with a(1) show ?thesis
    by (cases "aop_content a")
       (auto simp: air_operand_to_x86_operand_def Let_def split: if_splits)
next
  case True
  then obtain sy off where
    sy: "aop_content a = AOP_SYMBOL sy \<or> aop_content a = AOP_INDIRECT_SYMBOL sy off"
        "sy_sd sy \<noteq> SD_STATIC"
    by blast
  from xl_settled_placed [OF lo a sy] have nz: "f_stack_offset fr (sy_key sy) \<noteq> 0" .
  have keep: "f_stack_offset (snd (air_operand_to_x86_operand ts ta b fr)) (sy_key sy)
                = f_stack_offset fr (sy_key sy)"
    using nz by (cases "aop_content b") (auto simp: air_operand_to_x86_operand_def Let_def)
  from a(1) sy nz keep show ?thesis
    by (auto simp: air_operand_to_x86_operand_def Let_def)
qed

lemma xl_two_settled:
  assumes fr: "frame_ok fr" and ok: "operand_ok ts ta a" "operand_ok ts ta b"
    and ta: "air_operand_to_x86_operand ts ta a fr = (x, fr1)"
    and tb: "air_operand_to_x86_operand ts ta b fr1 = (y, fr2)"
  shows "air_operand_to_x86_operand ts ta a fr1 = (x, fr1)"
    and "air_operand_to_x86_operand ts ta a fr2 = (x, fr2)"
    and "air_operand_to_x86_operand ts ta b fr2 = (y, fr2)"
proof -
  have lo: "- (2 ^ 63) + 2 ^ 34 \<le> (- (2 ^ 62) :: int)" "- (2 ^ 62) \<le> f_stackalloc fr"
      "f_stackalloc fr \<le> 0"
    using fr by (simp_all add: frame_ok_def)
  show a1: "air_operand_to_x86_operand ts ta a fr1 = (x, fr1)"
    using xl_idem [OF lo ok(1)] ta by simp
  have lo1: "- (2 ^ 63) + 2 ^ 34 \<le> (- (2 ^ 62) - 2 ^ 33 :: int)"
      "- (2 ^ 62) - 2 ^ 33 \<le> f_stackalloc fr1" "f_stackalloc fr1 \<le> 0"
    using xl_stackalloc [OF lo ok(1)] ta by simp_all
  show "air_operand_to_x86_operand ts ta b fr2 = (y, fr2)"
    using xl_idem [OF lo1 ok(2)] tb by simp
  show "air_operand_to_x86_operand ts ta a fr2 = (x, fr2)"
    using xl_settled_after [OF lo1 a1 ok(1), of b] tb by simp
qed





text \<open>The limit constant: its name, and its creation on first use only.\<close>

lemma get_limit_name:
  assumes "limits_named file"
  shows "sy_name (fst (x86_64_get_sse_i64_limit c file)) = limit_name (c = CTC_FLOAT)"
  using assms
  by (auto simp: x86_64_get_sse_i64_limit_def limits_named_def limit_name_def Let_def
        limit_symbol_def split: option.splits)

lemma get_limit_rodata:
  "rodata (snd (x86_64_get_sse_i64_limit c file))
     = rodata file @
       (if limit_present (c = CTC_FLOAT) file then [] else [limit_data (c = CTC_FLOAT)])"
  by (auto simp: x86_64_get_sse_i64_limit_def limit_present_def limit_data_def Let_def
        limit_symbol_def FLOAT_WIDTH_def DOUBLE_WIDTH_def split: option.splits)

lemma get_limit_label:
  "next_constant_local_label (snd (x86_64_get_sse_i64_limit c file))
     = next_constant_local_label file"
  by (auto simp: x86_64_get_sse_i64_limit_def Let_def split: option.splits)

lemmas operand_constructor_defs =
  make_operand_label_def make_operand_label_ref_def make_operand_immediate_def
  make_operand_register_def make_basic_x86_operand_def


lemma u642sse_general:
  assumes ops: "ops0 ainsn = Some a0" "ops1 ainsn = Some a1"
    and fr: "frame_ok fr" and ok: "operand_ok ts ta a0" "operand_ok ts ta a1"
    and named: "limits_named file"
    and dst: "air_operand_to_x86_operand ts ta a0 fr = (dst, fr1)"
    and src: "air_operand_to_x86_operand ts ta a1 fr1 = (src, fr2)"
  shows "\<exists>file'. x86_generate_u642sse ts ta ainsn fr file =
           Some (u642sse_sequence (cclass (a_ct ainsn) = CTC_FLOAT)
                   (c_type_to_x86_operand_size ts (a_ct ainsn))
                   (c_type_to_x86_operand_size ts (aop_ct a1))
                   (limit_name (cclass (a_ct ainsn) = CTC_FLOAT)) src dst
                   (gen_label file 1) (gen_label file 2),
                 fr2, file')
         \<and> rodata file' = rodata file @
              (if limit_present (cclass (a_ct ainsn) = CTC_FLOAT) file then []
               else [limit_data (cclass (a_ct ainsn) = CTC_FLOAT)])
         \<and> next_constant_local_label file' = next_constant_local_label file + 2"
proof -
  note s = xl_two_settled [OF fr ok(1) ok(2) dst src]
  obtain limit file1 where
    lim: "x86_64_get_sse_i64_limit (cclass (a_ct ainsn)) file = (limit, file1)"
    by (cases "x86_64_get_sse_i64_limit (cclass (a_ct ainsn)) file")
  have ln: "sy_name limit = limit_name (cclass (a_ct ainsn) = CTC_FLOAT)"
    using get_limit_name [OF named, of "cclass (a_ct ainsn)"] lim by simp
  have lr: "rodata file1 = rodata file @
              (if limit_present (cclass (a_ct ainsn) = CTC_FLOAT) file then []
               else [limit_data (cclass (a_ct ainsn) = CTC_FLOAT)])"
    using get_limit_rodata [of "cclass (a_ct ainsn)" "file"] lim by simp
  have ll: "next_constant_local_label file1 = next_constant_local_label file"
    using get_limit_label [of "cclass (a_ct ainsn)" "file"] lim by simp
  show ?thesis
    by (simp add: x86_generate_u642sse_def ops lim src dst s ln lr ll Let_def
          x86_asm_file_create_next_label_def u642sse_sequence_def
          u642sse_sequence_as_specified_def make_basic_x86_insn_def
          gen_label_def add.commute operand_constructor_defs)
qed


















lemmas example_defs =
  example_d2ui_def example_ui2d_def example_frame_def example_file_def
  example_type_size_def make_basic_type_def example_below_int_def

lemmas gen_defs =
  x86_generate_sse2unsigned_def x86_generate_sse2u64_def
  x86_generate_unsigned2sse_def x86_generate_u642sse_def
  air_operand_to_x86_operand_def c_type_to_x86_operand_size_def
  x86_64_get_sse_i64_limit_def limit_symbol_def x86_asm_file_create_next_label_def
  make_basic_x86_insn_def set_op_size_def make_operand_register_def make_operand_label_def
  make_operand_label_ref_def make_operand_immediate_def make_basic_x86_operand_def
  FLOAT_WIDTH_def DOUBLE_WIDTH_def

lemma string_of_nat_1_2:
  "string_of_nat 1 = ''1''" "string_of_nat (Suc 0) = ''1''" "string_of_nat 2 = ''2''"
  by (simp_all add: string_of_nat.simps digit_char_def)







text \<open>
  C6, as the specification states it, fails: after the label of the sign-bit-set branch
  the code emits \<^verbatim>\<open>shl $1\<close> and then \<^verbatim>\<open>shr $1\<close> on the source, not a shift right alone.
  For the conversion of \<^verbatim>\<open>%rax\<close> to the double \<^verbatim>\<open>%xmm0\<close> the emitted list is the sequence with
  both shifts, which differs from the sequence as specified.
\<close>

theorem x86_generate_unsigned2sse_counterexample:
  "map_option fst (x86_generate_unsigned2sse example_type_size example_type_size
       example_below_int example_ui2d example_frame example_file)
     = Some (u642sse_sequence False X86SZ_QWORD X86SZ_QWORD ''__sse64_i64_limit''
               (Some \<lparr>op_content = X86OP_REGISTER X86R_RAX, op_size = X86SZ_UNSET\<rparr>)
               (Some \<lparr>op_content = X86OP_REGISTER X86R_XMM0, op_size = X86SZ_UNSET\<rparr>)
               ''.LGEN1'' ''.LGEN2'')
   \<and> u642sse_sequence False X86SZ_QWORD X86SZ_QWORD ''__sse64_i64_limit''
               (Some \<lparr>op_content = X86OP_REGISTER X86R_RAX, op_size = X86SZ_UNSET\<rparr>)
               (Some \<lparr>op_content = X86OP_REGISTER X86R_XMM0, op_size = X86SZ_UNSET\<rparr>)
               ''.LGEN1'' ''.LGEN2''
     \<noteq> u642sse_sequence_as_specified False X86SZ_QWORD X86SZ_QWORD ''__sse64_i64_limit''
               (Some \<lparr>op_content = X86OP_REGISTER X86R_RAX, op_size = X86SZ_UNSET\<rparr>)
               (Some \<lparr>op_content = X86OP_REGISTER X86R_XMM0, op_size = X86SZ_UNSET\<rparr>)
               ''.LGEN1'' ''.LGEN2''"
  by (simp add: example_defs gen_defs u642sse_sequence_def u642sse_sequence_as_specified_def
        Let_def string_of_nat_1_2)

text \<open>
  C6, amended. For every conversion of an unsigned integer operand of eight bytes to float
  or double, \<^verbatim>\<open>x86_generate_unsigned2sse\<close> emits: \<^verbatim>\<open>xorps\<close> or \<^verbatim>\<open>xorpd\<close> of the destination
  with itself, \<^verbatim>\<open>test\<close> of the source with itself, \<^verbatim>\<open>js\<close>; with the sign bit clear one
  \<^verbatim>\<open>cvtsi2ss\<close> or \<^verbatim>\<open>cvtsi2sd\<close>; otherwise \<^verbatim>\<open>shl $1\<close> and then \<^verbatim>\<open>shr $1\<close> on the source, the
  conversion, and the addition of the limit constant 9223372036854775808 to the
  destination.
\<close>

theorem x86_generate_unsigned2sse_u64:
  assumes ops: "ops0 ainsn = Some a0" "ops1 ainsn = Some a1"
    and cls: "cclass (a_ct ainsn) = CTC_FLOAT \<or> cclass (a_ct ainsn) = CTC_DOUBLE"
    and u64: "ts (aop_ct a1) = 8"
    and fr: "frame_ok fr" and ok: "operand_ok ts ta a0" "operand_ok ts ta a1"
    and named: "limits_named file"
    and dst: "air_operand_to_x86_operand ts ta a0 fr = (dst, fr1)"
    and src: "air_operand_to_x86_operand ts ta a1 fr1 = (src, fr2)"
  shows "\<exists>file'. x86_generate_unsigned2sse ts ta below_int ainsn fr file =
           Some (u642sse_sequence (cclass (a_ct ainsn) = CTC_FLOAT)
                   (c_type_to_x86_operand_size ts (a_ct ainsn)) X86SZ_QWORD
                   (limit_name (cclass (a_ct ainsn) = CTC_FLOAT)) src dst
                   (gen_label file 1) (gen_label file 2),
                 fr2, file')
         \<and> rodata file' = rodata file @
              (if limit_present (cclass (a_ct ainsn) = CTC_FLOAT) file then []
               else [limit_data (cclass (a_ct ainsn) = CTC_FLOAT)])
         \<and> next_constant_local_label file' = next_constant_local_label file + 2"
proof -
  have sz: "c_type_to_x86_operand_size ts (aop_ct a1) = X86SZ_QWORD"
    by (simp add: c_type_to_x86_operand_size_def u64)
  have eq: "x86_generate_unsigned2sse ts ta below_int ainsn fr file
              = x86_generate_u642sse ts ta ainsn fr file"
    by (simp add: x86_generate_unsigned2sse_def ops sz)
  show ?thesis
    unfolding eq using u642sse_general [OF ops fr ok named dst src] sz by auto
qed

theorem x86_generate_unsigned2sse_u64_witness:
  "\<exists>file'. x86_generate_unsigned2sse example_type_size example_type_size example_below_int
       example_ui2d example_frame example_file
     = Some (u642sse_sequence False X86SZ_QWORD X86SZ_QWORD ''__sse64_i64_limit''
               (Some \<lparr>op_content = X86OP_REGISTER X86R_RAX, op_size = X86SZ_UNSET\<rparr>)
               (Some \<lparr>op_content = X86OP_REGISTER X86R_XMM0, op_size = X86SZ_UNSET\<rparr>)
               ''.LGEN1'' ''.LGEN2'', example_frame, file')
     \<and> rodata file' = [limit_data False]"
  using x86_generate_unsigned2sse_u64 [of example_ui2d
      "\<lparr>aop_content = AOP_REGISTER X86R_XMM0, aop_ct = make_basic_type CTC_DOUBLE\<rparr>"
      "\<lparr>aop_content = AOP_REGISTER X86R_RAX, aop_ct = make_basic_type CTC_UNSIGNED_LONG_INT\<rparr>"
      example_type_size example_frame example_type_size "example_file"
      "Some \<lparr>op_content = X86OP_REGISTER X86R_XMM0, op_size = X86SZ_UNSET\<rparr>" example_frame
      "Some \<lparr>op_content = X86OP_REGISTER X86R_RAX, op_size = X86SZ_UNSET\<rparr>" example_frame
      example_below_int]
  by (auto simp: example_defs air_operand_to_x86_operand_def operand_ok_def limits_named_def
       c_type_to_x86_operand_size_def limit_name_def limit_present_def gen_label_def
       string_of_nat_1_2 frame_ok_def operand_constructor_defs)

section \<open>Analyzer: diagnostics\<close>

lemma c_string_vsnprintf_le:
  "length (c_string (vsnprintf (Suc n) text)) \<le> n"
proof -
  have "length (takeWhile (\<lambda>c. c \<noteq> CHR 0x00) (take n text)) \<le> length (take n text)"
    by (rule length_takeWhile_le)
  then have "length (takeWhile (\<lambda>c. c \<noteq> CHR 0x00) (take n text @ [CHR 0x00])) \<le> n"
    by (auto simp: takeWhile_append)
  then show ?thesis by (simp add: c_string_def vsnprintf_def)
qed

lemma c_string_vsnprintf_eq:
  assumes "CHR 0x00 \<notin> set text"
  shows "c_string (vsnprintf (Suc n) text) = take n text"
proof -
  have "\<forall>x \<in> set (take n text). x \<noteq> CHR 0x00"
    using assms by (auto dest: in_set_takeD)
  then show ?thesis
    by (simp add: c_string_def vsnprintf_def takeWhile_append)
qed

text \<open>
  C10. Whatever the format and its arguments expand to, \<^verbatim>\<open>error_init\<close> stores at most 512
  bytes in the message buffer, the message it delivers has at most 511 characters, and it
  is the first 511 characters of the expansion (the whole expansion when that is no
  longer): a longer message is cut, and the call still yields the one error, which
  \<^verbatim>\<open>error_list_add\<close> appends as one element.
\<close>

theorem error_init_message_truncated:
  "length (message (error_init syn w text)) \<le> 511
   \<and> length (vsnprintf MAX_ERROR_LEN text) \<le> MAX_ERROR_LEN
   \<and> (CHR 0x00 \<notin> set text \<longrightarrow> message (error_init syn w text) = take 511 text)
   \<and> (CHR 0x00 \<notin> set text \<longrightarrow> length text \<le> 511 \<longrightarrow> message (error_init syn w text) = text)
   \<and> length (error_list_add errors (error_init syn w text)) = Suc (length errors)"
proof -
  have m: "MAX_ERROR_LEN = Suc 511" by (simp add: MAX_ERROR_LEN_def)
  show ?thesis
    using c_string_vsnprintf_le [of 511 "text"] c_string_vsnprintf_eq [of "text" 511]
    by (simp add: error_init_def m error_list_add_def) (simp add: vsnprintf_def)
qed

theorem error_init_message_truncated_witness:
  "CHR 0x00 \<notin> set (replicate 600 CHR ''a'')
   \<and> message (error_init None False (replicate 600 CHR ''a'')) = replicate 511 CHR ''a''
   \<and> length (message (error_init None False (replicate 600 CHR ''a''))) = 511
   \<and> length ''invalid initialization'' \<le> 511
   \<and> message (error_init None False ''invalid initialization'') = ''invalid initialization''"
  using error_init_message_truncated [of None False "replicate 600 CHR ''a''"]
        error_init_message_truncated [of None False "''invalid initialization''"]
  by simp

section \<open>Analyzer: assignability\<close>





end
